theory Spec2Isabelle
  imports Complex_Main "HOL-Library.AList" "HOL-Library.Multiset"
begin

section \<open>Strings, cell values and numbers of the host language\<close>

text \<open>
  The report page \<^verbatim>\<open>src/pages/RelatorioCadastros.tsx\<close> is TypeScript. Its strings are
  modelled by \<^typ>\<open>string\<close>, one \<^typ>\<open>char\<close> per code unit, which covers the code units
  U+0000 to U+00FF (ASCII and Latin-1, enough for the Portuguese header vocabulary).
  Numbers are modelled by their exact values (\<^typ>\<open>rat\<close>) with the three special values of
  the language beside them; the rounding of IEEE doubles and their overflow to \<^verbatim>\<open>Infinity\<close>
  are not modelled, and they play no part for the integers below \<open>2^53\<close> that day counts,
  date parts and timestamps are. A literal of more than fifteen significant digits, or
  beyond the range of a double, has its exact value here and the nearest double (or
  \<^verbatim>\<open>Infinity\<close>) in the engine.
\<close>

definition isDigit :: "char \<Rightarrow> bool" where
  "isDigit c = (c \<in> set ''0123456789'')"

text \<open>White space as \<^verbatim>\<open>String.prototype.trim\<close> and \<^verbatim>\<open>Number()\<close> see it: TAB, LF, VT, FF, CR,
  SPACE and NO-BREAK SPACE (the members of the class below U+0100).\<close>

definition isSpace :: "char \<Rightarrow> bool" where
  "isSpace c = (c \<in> set [CHR 0x09, CHR 0x0A, CHR 0x0B, CHR 0x0C, CHR 0x0D, CHR 0x20, CHR 0xA0])"

definition trim :: "string \<Rightarrow> string" where
  "trim s = rev (dropWhile isSpace (rev (dropWhile isSpace s)))"

definition startsWith :: "string \<Rightarrow> string \<Rightarrow> bool" where
  "startsWith s k = (take (length k) s = k)"

text \<open>\<^verbatim>\<open>s.includes(k)\<close>: \<open>k\<close> occurs in \<open>s\<close> as a contiguous block.\<close>

fun strIncludes :: "string \<Rightarrow> string \<Rightarrow> bool" where
  "strIncludes [] k = (k = [])"
| "strIncludes (c # cs) k = (if startsWith (c # cs) k then True else strIncludes cs k)"

definition digitVal :: "char \<Rightarrow> nat" where
  "digitVal c = of_char c - 48"

definition decimalValue :: "string \<Rightarrow> nat" where
  "decimalValue s = foldl (\<lambda>a c. 10 * a + digitVal c) 0 s"

definition digitChar :: "nat \<Rightarrow> char" where
  "digitChar n = ''0123456789'' ! n"

fun showNat :: "nat \<Rightarrow> string" where
  "showNat n = (if n < 10 then [digitChar n] else showNat (n div 10) @ [digitChar (n mod 10)])"

declare showNat.simps [simp del]

definition showInt :: "int \<Rightarrow> string" where
  "showInt i = (if i < 0 then CHR ''-'' # showNat (nat (- i)) else showNat (nat i))"

text \<open>
  A cell of a sheet row, typed \<^verbatim>\<open>any\<close> in the source. A numeric cell is an integer here, of
  magnitude below \<open>10^21\<close>, where \<^verbatim>\<open>String()\<close> writes all the digits (a fractional one
  behaves as the text of its decimal rendering, except for the test against zero). A date object carries its time value and the text \<^verbatim>\<open>String()\<close> gives for it, which
  depends on the engine and the time zone.
\<close>

datatype jsdate = DateAt int | InvalidDate

datatype cell =
    TextCell string
  | NumCell int
  | BoolCell bool
  | DateCell jsdate string
  | Null
  | Undefined

text \<open>\<^verbatim>\<open>String(v)\<close>.\<close>

fun jsString :: "cell \<Rightarrow> string" where
  "jsString (TextCell s) = s"
| "jsString (NumCell n) = showInt n"
| "jsString (BoolCell b) = (if b then ''true'' else ''false'')"
| "jsString (DateCell d r) = r"
| "jsString Null = ''null''"
| "jsString Undefined = ''undefined''"

text \<open>\<^verbatim>\<open>!v\<close>: the empty string, zero, false, null and undefined are falsy; objects are not.\<close>

fun falsy :: "cell \<Rightarrow> bool" where
  "falsy (TextCell s) = (s = [])"
| "falsy (NumCell n) = (n = 0)"
| "falsy (BoolCell b) = (\<not> b)"
| "falsy (DateCell d r) = False"
| "falsy Null = True"
| "falsy Undefined = True"

datatype jsnum = NaN | Fin rat | PosInf | NegInf

definition isNaN :: "jsnum \<Rightarrow> bool" where
  "isNaN n = (n = NaN)"

text \<open>
  \<^verbatim>\<open>Number(s)\<close> on a string, after the grammar of numeric string literals: white space
  around the literal is skipped and the empty literal is \<open>0\<close>; the literal is a signed
  \<^verbatim>\<open>Infinity\<close>, an unsigned hexadecimal, octal or binary integer, or a signed decimal with an
  optional fraction and exponent; every other text is \<^verbatim>\<open>NaN\<close>.
\<close>

definition hexVal :: "char \<Rightarrow> nat" where
  "hexVal c = (if isDigit c then of_char c - 48
               else if c \<in> set ''abcdef'' then of_char c - 87 else of_char c - 55)"

definition radixValue :: "nat \<Rightarrow> string \<Rightarrow> nat" where
  "radixValue b s = foldl (\<lambda>a c. b * a + hexVal c) 0 s"

definition nonDecimalLiteral :: "string \<Rightarrow> nat option" where
  "nonDecimalLiteral t =
     (case t of
        c0 # x # ds \<Rightarrow>
          if c0 = CHR ''0'' \<and> ds \<noteq> [] then
            (if x \<in> set ''xX'' \<and> list_all (\<lambda>c. c \<in> set ''0123456789abcdefABCDEF'') ds
               then Some (radixValue 16 ds)
             else if x \<in> set ''oO'' \<and> list_all (\<lambda>c. c \<in> set ''01234567'') ds
               then Some (radixValue 8 ds)
             else if x \<in> set ''bB'' \<and> list_all (\<lambda>c. c \<in> set ''01'') ds
               then Some (radixValue 2 ds)
             else None)
          else None
      | _ \<Rightarrow> None)"

definition decimalDigits :: "string \<Rightarrow> int option" where
  "decimalDigits ds = (if ds \<noteq> [] \<and> list_all isDigit ds then Some (int (decimalValue ds)) else None)"

definition signedInteger :: "string \<Rightarrow> int option" where
  "signedInteger cs =
     (case cs of
        [] \<Rightarrow> None
      | c # ds \<Rightarrow>
          if c = CHR ''+'' then decimalDigits ds
          else if c = CHR ''-'' then map_option uminus (decimalDigits ds)
          else decimalDigits cs)"

definition exponentPart :: "string \<Rightarrow> int option" where
  "exponentPart r =
     (case r of
        [] \<Rightarrow> Some 0
      | c # cs \<Rightarrow> if c \<in> set ''eE'' then signedInteger cs else None)"

definition pow10 :: "int \<Rightarrow> rat" where
  "pow10 e = (if 0 \<le> e then 10 ^ nat e else 1 / 10 ^ nat (- e))"

definition unsignedDecimal :: "string \<Rightarrow> rat option" where
  "unsignedDecimal s =
     (let ip = takeWhile isDigit s;
          r1 = dropWhile isDigit s;
          dot = (r1 \<noteq> [] \<and> hd r1 = CHR ''.'');
          fp = (if dot then takeWhile isDigit (tl r1) else []);
          r2 = (if dot then dropWhile isDigit (tl r1) else r1)
      in if ip = [] \<and> fp = [] then None
         else (case exponentPart r2 of
                 None \<Rightarrow> None
               | Some e \<Rightarrow> Some (of_nat (decimalValue (ip @ fp)) * pow10 (e - int (length fp)))))"

definition signedDecimal :: "string \<Rightarrow> jsnum" where
  "signedDecimal t =
     (case t of
        [] \<Rightarrow> NaN
      | c # cs \<Rightarrow>
          if c = CHR ''+'' then
            (if cs = ''Infinity'' then PosInf
             else (case unsignedDecimal cs of None \<Rightarrow> NaN | Some q \<Rightarrow> Fin q))
          else if c = CHR ''-'' then
            (if cs = ''Infinity'' then NegInf
             else (case unsignedDecimal cs of None \<Rightarrow> NaN | Some q \<Rightarrow> Fin (- q)))
          else
            (if t = ''Infinity'' then PosInf
             else (case unsignedDecimal t of None \<Rightarrow> NaN | Some q \<Rightarrow> Fin q)))"

definition Number :: "string \<Rightarrow> jsnum" where
  "Number s =
     (let t = trim s
      in if t = [] then Fin 0
         else (case nonDecimalLiteral t of
                 Some n \<Rightarrow> Fin (of_nat n)
               | None \<Rightarrow> signedDecimal t))"

section \<open>Field coercion\<close>

text \<open>
  \<^verbatim>\<open>s.split(/[,;|\/]+/)\<close>: the pieces between the maximal runs of separator characters. A
  run at the start or at the end of the text leaves an empty first or last piece.
\<close>

function splitRuns :: "(char \<Rightarrow> bool) \<Rightarrow> string \<Rightarrow> string list" where
  "splitRuns d s =
     (case dropWhile (\<lambda>c. \<not> d c) s of
        [] \<Rightarrow> [s]
      | r # rs \<Rightarrow> takeWhile (\<lambda>c. \<not> d c) s # splitRuns d (dropWhile d rs))"
  by pat_completeness auto
termination
proof (relation "measure (\<lambda>(d, s). length s)")
  show "wf (measure (\<lambda>(d, s). length s))" by simp
next
  fix d :: "char \<Rightarrow> bool" and s r rs
  assume a: "dropWhile (\<lambda>c. \<not> d c) s = r # rs"
  have "length (dropWhile d rs) \<le> length rs"
    by (rule length_dropWhile_le)
  moreover have "length (r # rs) \<le> length s"
    using a length_dropWhile_le [of "\<lambda>c. \<not> d c" s] by simp
  ultimately show "((d, dropWhile d rs), (d, s)) \<in> measure (\<lambda>(d, s). length s)"
    by simp
qed

declare splitRuns.simps [simp del]

definition isSeparator :: "char \<Rightarrow> bool" where
  "isSeparator c = (c \<in> set '',;|/'')"

definition lineBreakToSpace :: "char \<Rightarrow> char" where
  "lineBreakToSpace c = (if c = CHR 0x0D \<or> c = CHR 0x0A then CHR '' '' else c)"

text \<open>\<^verbatim>\<open>splitPendencias\<close> (lines 127 to 134).\<close>

definition splitPendencias :: "cell \<Rightarrow> string list" where
  "splitPendencias raw =
     (if falsy raw then []
      else filter (\<lambda>x. x \<noteq> [])
             (map trim (splitRuns isSeparator (map lineBreakToSpace (jsString raw)))))"

text \<open>The \<^verbatim>\<open>diasAtrasado\<close> case of the row mapper (lines 171 to 174):
  \<^verbatim>\<open>const n = Number(String(v).replace(/\D+/g, "")); isNaN(n) ? null : n\<close>.\<close>

definition coerceDias :: "cell \<Rightarrow> jsnum option" where
  "coerceDias v =
     (let n = Number (filter isDigit (jsString v))
      in if isNaN n then None else Some n)"

text \<open>The default case (line 176): \<^verbatim>\<open>String(v ?? "").trim()\<close>.\<close>

definition coerceText :: "cell \<Rightarrow> string" where
  "coerceText v = trim (jsString (if v = Null \<or> v = Undefined then TextCell [] else v))"

section \<open>Plain objects used as dictionaries\<close>

text \<open>
  \<^verbatim>\<open>headerMap\<close> and the three count tables are plain objects. An object is modelled by the
  list of its own properties in creation order. Three traits of such objects matter here:
  enumeration (\<^verbatim>\<open>Object.keys\<close>, \<^verbatim>\<open>Object.entries\<close>) lists the keys that are array indices
  first, in ascending numeric order, and the other keys after them in creation order; a
  read of a key the object does not own falls through to the properties every object
  inherits; and a write to \<^verbatim>\<open>__proto__\<close> of a primitive value stores nothing.
\<close>

type_synonym 'v jsobject = "(string \<times> 'v) list"

definition isArrayIndex :: "string \<Rightarrow> bool" where
  "isArrayIndex k =
     (k \<noteq> [] \<and> list_all isDigit k \<and> (if hd k = CHR ''0'' then k = ''0'' else True)
      \<and> decimalValue k \<le> 4294967294)"

definition objectEntries :: "'v jsobject \<Rightarrow> (string \<times> 'v) list" where
  "objectEntries obj =
     sort_key (\<lambda>e. decimalValue (fst e)) (filter (\<lambda>e. isArrayIndex (fst e)) obj)
     @ filter (\<lambda>e. \<not> isArrayIndex (fst e)) obj"

definition inheritedNames :: "string list" where
  "inheritedNames =
     [''constructor'', ''__proto__'', ''hasOwnProperty'', ''isPrototypeOf'',
      ''propertyIsEnumerable'', ''toLocaleString'', ''toString'', ''valueOf'',
      ''__defineGetter__'', ''__defineSetter__'', ''__lookupGetter__'', ''__lookupSetter__'']"

datatype 'v propRead = Own 'v | Inherited | Missing

text \<open>\<^verbatim>\<open>obj[k]\<close> read: \<open>Inherited\<close> stands for a function or object found on the prototype
  (truthy, and no number), \<open>Missing\<close> for \<^verbatim>\<open>undefined\<close>.\<close>

definition getProp :: "'v jsobject \<Rightarrow> string \<Rightarrow> 'v propRead" where
  "getProp obj k =
     (case map_of obj k of
        Some v \<Rightarrow> Own v
      | None \<Rightarrow> if k \<in> set inheritedNames then Inherited else Missing)"

text \<open>\<^verbatim>\<open>obj[k] = v\<close> for a primitive \<open>v\<close>: an own property keeps its place, a new one is added
  last.\<close>

definition setProp :: "'v jsobject \<Rightarrow> string \<Rightarrow> 'v \<Rightarrow> 'v jsobject" where
  "setProp obj k v = (if k = ''__proto__'' then obj else AList.update k v obj)"

section \<open>Header normalisation and resolution\<close>

text \<open>\<^verbatim>\<open>toLowerCase\<close> and the removal of accents (\<^verbatim>\<open>normalize("NFD")\<close> followed by the
  deletion of the combining marks U+0300 to U+036F), on the code units below U+0100.\<close>

definition lowerChar :: "char \<Rightarrow> char" where
  "lowerChar c =
     (let n = (of_char c :: nat)
      in if (65 \<le> n \<and> n \<le> 90) \<or> (192 \<le> n \<and> n \<le> 222 \<and> n \<noteq> 215) then char_of (n + 32) else c)"

definition stripAccent :: "char \<Rightarrow> char" where
  "stripAccent c =
     (let n = (of_char c :: nat)
      in if 192 \<le> n \<and> n \<le> 197 then CHR ''A'' else if n = 199 then CHR ''C''
         else if 200 \<le> n \<and> n \<le> 203 then CHR ''E'' else if 204 \<le> n \<and> n \<le> 207 then CHR ''I''
         else if n = 209 then CHR ''N'' else if 210 \<le> n \<and> n \<le> 214 then CHR ''O''
         else if 217 \<le> n \<and> n \<le> 220 then CHR ''U'' else if n = 221 then CHR ''Y''
         else if 224 \<le> n \<and> n \<le> 229 then CHR ''a'' else if n = 231 then CHR ''c''
         else if 232 \<le> n \<and> n \<le> 235 then CHR ''e'' else if 236 \<le> n \<and> n \<le> 239 then CHR ''i''
         else if n = 241 then CHR ''n'' else if 242 \<le> n \<and> n \<le> 246 then CHR ''o''
         else if 249 \<le> n \<and> n \<le> 252 then CHR ''u'' else if n = 253 \<or> n = 255 then CHR ''y''
         else c)"

text \<open>\<^verbatim>\<open>normalizeHeader\<close> (lines 44 to 52).\<close>

definition normalizeHeader :: "string \<Rightarrow> string" where
  "normalizeHeader h = (if h = [] then [] else map stripAccent (map lowerChar (trim h)))"

datatype clienteKey =
    K_nome | K_cpf | K_estado | K_cidade | K_responsavelFidelizacao | K_acoesInformadas
  | K_situacao | K_pendencias | K_dataProc | K_dataEnvioProc | K_dataLimiteCadastro
  | K_dataLimiteAnalise | K_dataLimitePeticao | K_dataLimiteProtocolo | K_prazo20dias
  | K_diasAtrasado | K_responsavelCadastramento

text \<open>\<^verbatim>\<open>headerMap\<close> (lines 54 to 78), in the order of the source. The twentieth key is
  written with U+00E1 in the source.\<close>

definition headerMap :: "clienteKey jsobject" where
  "headerMap =
     [(''cliente novo'', K_nome),
      (''nome'', K_nome),
      (''cpf'', K_cpf),
      (''estado'', K_estado),
      (''cidade'', K_cidade),
      (''responsavel da fidelizacao'', K_responsavelFidelizacao),
      (''responsavel pela fidelizacao'', K_responsavelFidelizacao),
      (''responsavel fidelizacao'', K_responsavelFidelizacao),
      (''acoes informadas'', K_acoesInformadas),
      (''situacao'', K_situacao),
      (''pendencias'', K_pendencias),
      (''data da procuracao'', K_dataProc),
      (''data do envio da procuracao'', K_dataEnvioProc),
      (''data limite para cadastro'', K_dataLimiteCadastro),
      (''data limite para analise'', K_dataLimiteAnalise),
      (''data limite para peticao inicial'', K_dataLimitePeticao),
      (''data limite para protocolo'', K_dataLimiteProtocolo),
      (''prazo de 20 dias'', K_prazo20dias),
      (''quantos dias esta atrasado'', K_diasAtrasado),
      (''quantos dias est'' @ [CHR 0xE1] @ '' atrasado'', K_diasAtrasado),
      (''responsavel pelo cadastramento'', K_responsavelCadastramento),
      (''responsavel pelo cadastro'', K_responsavelCadastramento),
      (''responsavel'', K_responsavelCadastramento)]"

text \<open>What \<^verbatim>\<open>mapHeaderToKey\<close> returns: a field name, \<^verbatim>\<open>undefined\<close>, or (outside its declared
  type) a value inherited by \<^verbatim>\<open>headerMap\<close>.\<close>

datatype resolved = Key clienteKey | InheritedValue | NoKey

text \<open>\<^verbatim>\<open>mapHeaderToKey\<close> (lines 80 to 89). Every value of the table is a non-empty string,
  so an own value passes the truth test of the direct match.\<close>

definition mapHeaderToKey :: "string \<Rightarrow> resolved" where
  "mapHeaderToKey normalized =
     (case getProp headerMap normalized of
        Own f \<Rightarrow> Key f
      | Inherited \<Rightarrow> InheritedValue
      | Missing \<Rightarrow>
          (case find (\<lambda>k. strIncludes normalized k) (map fst (objectEntries headerMap)) of
             None \<Rightarrow> NoKey
           | Some k \<Rightarrow>
               (case getProp headerMap k of
                  Own f \<Rightarrow> Key f
                | Inherited \<Rightarrow> InheritedValue
                | Missing \<Rightarrow> NoKey)))"

section \<open>Dates\<close>

text \<open>
  A date object is its time value, milliseconds since 1970-01-01T00:00Z, or invalid. What
  the engine and the machine decide is a parameter of the model: \<^verbatim>\<open>Date.parse\<close> (its result
  on texts outside the ISO format is left to the engine) and the offset of local time
  from UTC, \<open>localTZA t isUTC\<close> in the wording of the language standard.
\<close>

record platform =
  dateParse :: "string \<Rightarrow> int option"
  localTZA :: "int \<Rightarrow> bool \<Rightarrow> int"

definition msPerDay :: int where
  "msPerDay = 86400000"

definition dayFromYear :: "int \<Rightarrow> int" where
  "dayFromYear y = 365 * (y - 1970) + (y - 1969) div 4 - (y - 1901) div 100 + (y - 1601) div 400"

definition inLeapYear :: "int \<Rightarrow> bool" where
  "inLeapYear y = (if y mod 400 = 0 then True else if y mod 100 = 0 then False else y mod 4 = 0)"

definition daysBeforeMonth :: "bool \<Rightarrow> nat \<Rightarrow> int" where
  "daysBeforeMonth leap m =
     [0, 31, 59, 90, 120, 151, 181, 212, 243, 273, 304, 334] ! m + (if leap \<and> 2 \<le> m then 1 else 0)"

text \<open>The year of a time value: the \<open>y\<close> with \<open>dayFromYear y \<le> day < dayFromYear (y + 1)\<close>,
  found from an estimate that is off by one at most.\<close>

definition yearFromTime :: "int \<Rightarrow> int" where
  "yearFromTime t =
     (let d = t div msPerDay;
          y = 1970 + (400 * d) div 146097
      in if d < dayFromYear y then y - 1
         else if dayFromYear (y + 1) \<le> d then y + 1
         else y)"

definition truncRat :: "rat \<Rightarrow> int" where
  "truncRat q = (if 0 \<le> q then \<lfloor>q\<rfloor> else \<lceil>q\<rceil>)"

definition makeDay :: "int \<Rightarrow> int \<Rightarrow> int \<Rightarrow> int" where
  "makeDay y m dt =
     (let ym = y + m div 12;
          mn = nat (m mod 12)
      in dayFromYear ym + daysBeforeMonth (inLeapYear ym) mn + dt - 1)"

definition timeClip :: "int \<Rightarrow> jsdate" where
  "timeClip t = (if 8640000000000000 < \<bar>t\<bar> then InvalidDate else DateAt t)"

text \<open>\<^verbatim>\<open>new Date(y, m, d)\<close>: midnight of the given local day. Months and days out of range
  roll over into the neighbouring months and years; a part that is no finite number makes
  the date invalid.\<close>

definition newDateYMD :: "platform \<Rightarrow> jsnum \<Rightarrow> jsnum \<Rightarrow> jsnum \<Rightarrow> jsdate" where
  "newDateYMD env y m d =
     (case (y, m, d) of
        (Fin yq, Fin mq, Fin dq) \<Rightarrow>
          (let yi = truncRat yq;
               yr = (if 0 \<le> yi \<and> yi \<le> 99 then 1900 + yi else yi);
               t = makeDay yr (truncRat mq) (truncRat dq) * msPerDay
           in timeClip (t - localTZA env t False))
      | _ \<Rightarrow> InvalidDate)"

text \<open>\<^verbatim>\<open>dt.getFullYear()\<close>, \<open>None\<close> for \<^verbatim>\<open>NaN\<close>.\<close>

definition getFullYear :: "platform \<Rightarrow> jsdate \<Rightarrow> int option" where
  "getFullYear env dt =
     (case dt of
        InvalidDate \<Rightarrow> None
      | DateAt t \<Rightarrow> Some (yearFromTime (t + localTZA env t True)))"

definition yearAfter1900 :: "platform \<Rightarrow> jsdate \<Rightarrow> bool" where
  "yearAfter1900 env dt = (case getFullYear env dt of None \<Rightarrow> False | Some y \<Rightarrow> 1900 < y)"

definition jsMinusOne :: "jsnum \<Rightarrow> jsnum" where
  "jsMinusOne n = (case n of Fin q \<Rightarrow> Fin (q - 1) | _ \<Rightarrow> n)"

definition jsGreater :: "jsnum \<Rightarrow> rat \<Rightarrow> bool" where
  "jsGreater n c = (case n of Fin q \<Rightarrow> c < q | PosInf \<Rightarrow> True | _ \<Rightarrow> False)"

text \<open>\<^verbatim>\<open>s.split("/")\<close> is \<open>splitOn (\<lambda>c. c = CHR ''/'') s\<close>: the pieces between the
  separators, one more than there are separators.\<close>

fun splitOn :: "(char \<Rightarrow> bool) \<Rightarrow> string \<Rightarrow> string list" where
  "splitOn d [] = [[]]"
| "splitOn d (c # cs) =
     (if d c then [] # splitOn d cs
      else (case splitOn d cs of p # ps \<Rightarrow> (c # p) # ps | [] \<Rightarrow> [[c]]))"

text \<open>\<^verbatim>\<open>new Date(Math.round((n - 25569) * 86400 * 1000))\<close> of the serial attempt.\<close>

definition serialDate :: "jsnum \<Rightarrow> jsdate" where
  "serialDate n =
     (case n of
        Fin q \<Rightarrow> timeClip \<lfloor>(q - 25569) * 86400 * 1000 + 1 / 2\<rfloor>
      | _ \<Rightarrow> InvalidDate)"

text \<open>\<^verbatim>\<open>parseDate\<close> (lines 91 to 125); \<open>None\<close> is \<^verbatim>\<open>null\<close>.\<close>

definition parseSerial :: "platform \<Rightarrow> string \<Rightarrow> jsdate option" where
  "parseSerial env s =
     (let n = Number s
      in if \<not> isNaN n \<and> jsGreater n 0 \<and> yearAfter1900 env (serialDate n)
         then Some (serialDate n) else None)"

definition parseDate :: "platform \<Rightarrow> cell \<Rightarrow> jsdate option" where
  "parseDate env v =
     (if falsy v \<and> v \<noteq> NumCell 0 then None
      else case v of
        DateCell (DateAt t) r \<Rightarrow> Some (DateAt t)
      | _ \<Rightarrow>
        (let s = trim (jsString v)
         in if s = [] then None
            else
              (let parts = splitOn (\<lambda>c. c = CHR ''/'') s
               in if length parts = 3 then
                    (let d = Number (parts ! 0);
                         m = jsMinusOne (Number (parts ! 1));
                         y = Number (parts ! 2)
                     in if \<not> isNaN d \<and> \<not> isNaN m \<and> \<not> isNaN y \<and> jsGreater y 1900
                        then Some (newDateYMD env y m d) else None)
                  else
                    (case dateParse env s of
                       Some isoMs \<Rightarrow>
                         if yearAfter1900 env (timeClip isoMs) then Some (timeClip isoMs)
                         else parseSerial env s
                     | None \<Rightarrow> parseSerial env s))))"

section \<open>Row mapping\<close>

text \<open>
  \<^verbatim>\<open>Cliente\<close> (lines 22 to 41): every field is optional. A text field is absent or a string,
  the list field absent or a list; a date field and the overdue-days field are absent,
  \<^verbatim>\<open>null\<close> or a value.
\<close>

datatype 'a optional = Absent | IsNull | Present 'a

record Cliente =
  nome :: "string option"
  cpf :: "string option"
  estado :: "string option"
  cidade :: "string option"
  responsavelFidelizacao :: "string option"
  acoesInformadas :: "string option"
  situacao :: "string option"
  pendencias :: "string list option"
  dataProc :: "jsdate optional"
  dataEnvioProc :: "jsdate optional"
  dataLimiteCadastro :: "jsdate optional"
  dataLimiteAnalise :: "jsdate optional"
  dataLimitePeticao :: "jsdate optional"
  dataLimiteProtocolo :: "jsdate optional"
  prazo20dias :: "string option"
  diasAtrasado :: "jsnum optional"
  responsavelCadastramento :: "string option"
  raw :: "cell jsobject option"

text \<open>\<^verbatim>\<open>const out: Cliente = { raw: row }\<close> (line 154).\<close>

definition newCliente :: "cell jsobject \<Rightarrow> Cliente" where
  "newCliente row =
     \<lparr>nome = None, cpf = None, estado = None, cidade = None, responsavelFidelizacao = None,
      acoesInformadas = None, situacao = None, pendencias = None, dataProc = Absent,
      dataEnvioProc = Absent, dataLimiteCadastro = Absent, dataLimiteAnalise = Absent,
      dataLimitePeticao = Absent, dataLimiteProtocolo = Absent, prazo20dias = None,
      diasAtrasado = Absent, responsavelCadastramento = None, raw = Some row\<rparr>"

definition nullable :: "'a option \<Rightarrow> 'a optional" where
  "nullable x = (case x of None \<Rightarrow> IsNull | Some a \<Rightarrow> Present a)"

text \<open>The \<^verbatim>\<open>switch (key)\<close> of the row mapper (lines 159 to 177).\<close>

fun assignField :: "platform \<Rightarrow> Cliente \<Rightarrow> clienteKey \<Rightarrow> cell \<Rightarrow> Cliente" where
  "assignField env out K_dataProc v = out\<lparr>dataProc := nullable (parseDate env v)\<rparr>"
| "assignField env out K_dataEnvioProc v = out\<lparr>dataEnvioProc := nullable (parseDate env v)\<rparr>"
| "assignField env out K_dataLimiteCadastro v = out\<lparr>dataLimiteCadastro := nullable (parseDate env v)\<rparr>"
| "assignField env out K_dataLimiteAnalise v = out\<lparr>dataLimiteAnalise := nullable (parseDate env v)\<rparr>"
| "assignField env out K_dataLimitePeticao v = out\<lparr>dataLimitePeticao := nullable (parseDate env v)\<rparr>"
| "assignField env out K_dataLimiteProtocolo v = out\<lparr>dataLimiteProtocolo := nullable (parseDate env v)\<rparr>"
| "assignField env out K_pendencias v = out\<lparr>pendencias := Some (splitPendencias v)\<rparr>"
| "assignField env out K_diasAtrasado v = out\<lparr>diasAtrasado := nullable (coerceDias v)\<rparr>"
| "assignField env out K_nome v = out\<lparr>nome := Some (coerceText v)\<rparr>"
| "assignField env out K_cpf v = out\<lparr>cpf := Some (coerceText v)\<rparr>"
| "assignField env out K_estado v = out\<lparr>estado := Some (coerceText v)\<rparr>"
| "assignField env out K_cidade v = out\<lparr>cidade := Some (coerceText v)\<rparr>"
| "assignField env out K_responsavelFidelizacao v = out\<lparr>responsavelFidelizacao := Some (coerceText v)\<rparr>"
| "assignField env out K_acoesInformadas v = out\<lparr>acoesInformadas := Some (coerceText v)\<rparr>"
| "assignField env out K_situacao v = out\<lparr>situacao := Some (coerceText v)\<rparr>"
| "assignField env out K_prazo20dias v = out\<lparr>prazo20dias := Some (coerceText v)\<rparr>"
| "assignField env out K_responsavelCadastramento v = out\<lparr>responsavelCadastramento := Some (coerceText v)\<rparr>"

text \<open>One column of the row (lines 155 to 178). A header that resolves to an inherited
  value passes \<^verbatim>\<open>if (!key) return\<close> and reaches the default case, whose write lands on a
  property named after that value: no field of \<^verbatim>\<open>Cliente\<close> changes.\<close>

definition mapColumn :: "platform \<Rightarrow> Cliente \<Rightarrow> string \<times> cell \<Rightarrow> Cliente" where
  "mapColumn env out e =
     (case mapHeaderToKey (normalizeHeader (fst e)) of
        Key k \<Rightarrow> assignField env out k (snd e)
      | InheritedValue \<Rightarrow> out
      | NoKey \<Rightarrow> out)"

definition mapColumns :: "platform \<Rightarrow> cell jsobject \<Rightarrow> Cliente" where
  "mapColumns env row = foldl (mapColumn env) (newCliente row) (objectEntries row)"

text \<open>The fallback of lines 179 to 183, \<open>now\<close> being \<^verbatim>\<open>Date.now()\<close>. The time of an invalid
  date is \<^verbatim>\<open>NaN\<close>, so is the difference, and \<^verbatim>\<open>diff > 0\<close> fails.\<close>

definition overdueDays :: "int \<Rightarrow> jsdate \<Rightarrow> jsnum" where
  "overdueDays now dt =
     (case dt of
        DateAt t \<Rightarrow>
          (let diff = (now - t) div (1000 * 60 * 60 * 24)
           in Fin (of_int (if 0 < diff then diff else 0)))
      | InvalidDate \<Rightarrow> Fin 0)"

definition fallbackDias :: "int \<Rightarrow> Cliente \<Rightarrow> Cliente" where
  "fallbackDias now out =
     (if diasAtrasado out = Absent \<or> diasAtrasado out = IsNull then
        (case dataLimiteProtocolo out of
           Present dt \<Rightarrow> out\<lparr>diasAtrasado := Present (overdueDays now dt)\<rparr>
         | _ \<Rightarrow> out)
      else out)"

text \<open>The function mapped over the rows (lines 153 to 185).\<close>

definition mapRow :: "platform \<Rightarrow> int \<Rightarrow> cell jsobject \<Rightarrow> Cliente" where
  "mapRow env now row = fallbackDias now (mapColumns env row)"

section \<open>Metrics\<close>

text \<open>A value of a count table: a count, or what \<^verbatim>\<open>(acc[k] || 0) + 1\<close> leaves when \<^verbatim>\<open>acc[k]\<close>
  reads an inherited property, a text and no number.\<close>

datatype tally = Count nat | NotNumber

text \<open>\<^verbatim>\<open>acc[k] = (acc[k] || 0) + 1\<close>.\<close>

definition countUp :: "tally jsobject \<Rightarrow> string \<Rightarrow> tally jsobject" where
  "countUp acc k =
     setProp acc k
       (case getProp acc k of
          Own (Count n) \<Rightarrow> Count (n + 1)
        | Own NotNumber \<Rightarrow> NotNumber
        | Inherited \<Rightarrow> NotNumber
        | Missing \<Rightarrow> Count 1)"

text \<open>The comparison \<^verbatim>\<open>(a, b) => b.value - a.value\<close>; a \<^verbatim>\<open>NaN\<close> result counts as zero in a
  sort.\<close>

definition compareValue :: "string \<times> tally \<Rightarrow> string \<times> tally \<Rightarrow> int" where
  "compareValue a b =
     (case (snd b, snd a) of
        (Count m, Count n) \<Rightarrow> int m - int n
      | _ \<Rightarrow> 0)"

text \<open>\<^verbatim>\<open>Array.prototype.sort\<close> with a comparison function is a stable sort; for a comparison
  that is a consistent order every stable sort gives the result of this insertion sort.\<close>

fun insertBy :: "('a \<Rightarrow> 'a \<Rightarrow> int) \<Rightarrow> 'a \<Rightarrow> 'a list \<Rightarrow> 'a list" where
  "insertBy cmp x [] = [x]"
| "insertBy cmp x (y # ys) = (if cmp x y \<le> 0 then x # y # ys else y # insertBy cmp x ys)"

definition sortBy :: "('a \<Rightarrow> 'a \<Rightarrow> int) \<Rightarrow> 'a list \<Rightarrow> 'a list" where
  "sortBy cmp xs = foldr (insertBy cmp) xs []"

text \<open>\<^verbatim>\<open>x || d\<close> on an optional text: absent and empty give the default.\<close>

definition orDefault :: "string option \<Rightarrow> string \<Rightarrow> string" where
  "orDefault x d = (case x of None \<Rightarrow> d | Some s \<Rightarrow> if s = [] then d else s)"

text \<open>The pendency table (lines 205 to 213).\<close>

definition pendenciasFlat :: "Cliente list \<Rightarrow> string list" where
  "pendenciasFlat clientes =
     concat (map (\<lambda>c. case pendencias c of None \<Rightarrow> [] | Some ps \<Rightarrow> ps) clientes)"

definition semEspecificar :: string where
  "semEspecificar = ''Sem especificar''"

definition pendenciaKey :: "string \<Rightarrow> string" where
  "pendenciaKey p = (if p = [] then semEspecificar else p)"

definition pendenciasCount :: "Cliente list \<Rightarrow> tally jsobject" where
  "pendenciasCount clientes = foldl (\<lambda>acc p. countUp acc (pendenciaKey p)) [] (pendenciasFlat clientes)"

definition pendenciasArray :: "Cliente list \<Rightarrow> (string \<times> tally) list" where
  "pendenciasArray clientes = sortBy compareValue (objectEntries (pendenciasCount clientes))"

text \<open>The city table (lines 216 to 224); the default label is written with U+00E3.\<close>

definition naoInformado :: string where
  "naoInformado = ''N'' @ [CHR 0xE3] @ ''o informado''"

definition cityKey :: "Cliente \<Rightarrow> string" where
  "cityKey c = trim (orDefault (cidade c) naoInformado)"

definition cityCount :: "Cliente list \<Rightarrow> tally jsobject" where
  "cityCount clientes = foldl (\<lambda>acc c. countUp acc (cityKey c)) [] clientes"

definition topCities :: "Cliente list \<Rightarrow> (string \<times> tally) list" where
  "topCities clientes = take 10 (sortBy compareValue (objectEntries (cityCount clientes)))"

section \<open>Notions used to state the properties\<close>

text \<open>\<open>n \<ge> c\<close> on numbers of the language.\<close>

definition jsAtLeast :: "jsnum \<Rightarrow> rat \<Rightarrow> bool" where
  "jsAtLeast n c = (case n of Fin q \<Rightarrow> c \<le> q | PosInf \<Rightarrow> True | _ \<Rightarrow> False)"

text \<open>The columns of a row whose header resolves to a given field, in the order in which
  the mapper visits them.\<close>

definition columnsFor :: "clienteKey \<Rightarrow> cell jsobject \<Rightarrow> (string \<times> cell) list" where
  "columnsFor k row = filter (\<lambda>e. mapHeaderToKey (normalizeHeader (fst e)) = Key k) (objectEntries row)"

text \<open>The distinct members of a list in the order of their first occurrence.\<close>

fun firstSeen :: "'a list \<Rightarrow> 'a list" where
  "firstSeen [] = []"
| "firstSeen (x # xs) = x # removeAll x (firstSeen xs)"

definition countOf :: "string \<times> tally \<Rightarrow> nat" where
  "countOf e = (case snd e of Count n \<Rightarrow> n | NotNumber \<Rightarrow> 0)"

text \<open>A table all of whose values are counts.\<close>

definition allCounts :: "(string \<times> tally) list \<Rightarrow> bool" where
  "allCounts xs = list_all (\<lambda>e. snd e \<noteq> NotNumber) xs"

text \<open>Records for the examples: one that has a city only, one that has a pendency list
  only.\<close>

definition clienteDe :: "string \<Rightarrow> Cliente" where
  "clienteDe city = (newCliente [])\<lparr>cidade := Some city\<rparr>"

definition clienteCom :: "string list \<Rightarrow> Cliente" where
  "clienteCom ps = (newCliente [])\<lparr>pendencias := Some ps\<rparr>"

text \<open>Two engines for the examples. Both keep local time at UTC. The first one's
  \<^verbatim>\<open>Date.parse\<close> accepts no text (no example gives it one in the ISO format, which every
  engine accepts). The second one's answers a text of one to nine decimal digits as the
  lenient parser of the V8 engine answers a lone number: a number from 1 to 12 is a month
  of 2001, a number from 13 to 31 is no date, and any other number is a year, with 2000
  added up to 49 and 1900 added from 50 to 99; the date is the first instant of that month
  or year. It rejects every other text; the examples give it none.\<close>

definition strictPlatform :: platform where
  "strictPlatform = \<lparr>dateParse = (\<lambda>s. None), localTZA = (\<lambda>t isUTC. 0)\<rparr>"

definition loneNumberDate :: "nat \<Rightarrow> int option" where
  "loneNumberDate n =
     (if 1 \<le> n \<and> n \<le> 12 then Some (makeDay 2001 (int n - 1) 1 * msPerDay)
      else if 13 \<le> n \<and> n \<le> 31 then None
      else
        (let y = (if n \<le> 49 then 2000 + int n else if n \<le> 99 then 1900 + int n else int n);
             t = dayFromYear y * msPerDay
         in if 8640000000000000 < t then None else Some t))"

definition lenientPlatform :: platform where
  "lenientPlatform =
     \<lparr>dateParse = (\<lambda>s. if s \<noteq> [] \<and> length s \<le> 9 \<and> list_all isDigit s
                        then loneNumberDate (decimalValue s) else None),
      localTZA = (\<lambda>t isUTC. 0)\<rparr>"

section \<open>Basic facts: trimming and numbers\<close>

lemma isDigit_not_space: "isDigit c \<Longrightarrow> \<not> isSpace c"
  by (auto simp: isDigit_def isSpace_def)

lemma trim_Nil: "trim [] = []"
  by (simp add: trim_def)

lemma trim_no_space_ends:
  assumes "s \<noteq> []" "\<not> isSpace (hd s)" "\<not> isSpace (last s)"
  shows "trim s = s"
proof -
  have a: "dropWhile isSpace s = s" using assms by (cases s) auto
  have "rev s \<noteq> []" "\<not> isSpace (hd (rev s))" using assms by (simp_all add: hd_rev)
  then have "dropWhile isSpace (rev s) = rev s" by (cases "rev s") auto
  with a show ?thesis by (simp add: trim_def)
qed

lemma trim_digits: "list_all isDigit ds \<Longrightarrow> trim ds = ds"
proof (cases "ds = []")
  case True then show ?thesis by (simp add: trim_Nil)
next
  case False
  assume a: "list_all isDigit ds"
  have "isDigit (hd ds)" "isDigit (last ds)" using a False by (auto simp: list_all_iff)
  then show ?thesis using False by (intro trim_no_space_ends) (auto dest: isDigit_not_space)
qed

lemma takeWhile_all: "list_all P xs \<Longrightarrow> takeWhile P xs = xs"
  by (induction xs) auto

lemma dropWhile_all: "list_all P xs \<Longrightarrow> dropWhile P xs = []"
  by (induction xs) auto

lemma isDigit_not_radix: "isDigit x \<Longrightarrow> x \<notin> set ''xX'' \<and> x \<notin> set ''oO'' \<and> x \<notin> set ''bB''"
  by (auto simp: isDigit_def)

lemma nonDecimalLiteral_digits:
  assumes "list_all isDigit ds"
  shows "nonDecimalLiteral ds = None"
proof (cases ds)
  case Nil
  then show ?thesis by (simp add: nonDecimalLiteral_def)
next
  case (Cons c0 r)
  show ?thesis
  proof (cases r)
    case Nil
    with Cons show ?thesis by (simp add: nonDecimalLiteral_def)
  next
    case (Cons x ds')
    have "isDigit x" using assms \<open>ds = c0 # r\<close> Cons by simp
    from isDigit_not_radix [OF this] show ?thesis
      unfolding nonDecimalLiteral_def \<open>ds = c0 # r\<close> Cons by simp
  qed
qed

lemma unsignedDecimal_digits:
  "ds \<noteq> [] \<Longrightarrow> list_all isDigit ds \<Longrightarrow> unsignedDecimal ds = Some (of_nat (decimalValue ds))"
  by (simp add: unsignedDecimal_def takeWhile_all dropWhile_all exponentPart_def pow10_def)

lemma signedDecimal_digits:
  assumes "ds \<noteq> []" "list_all isDigit ds"
  shows "signedDecimal ds = Fin (of_nat (decimalValue ds))"
proof -
  obtain c cs where ds: "ds = c # cs" using assms(1) by (cases ds) auto
  have c: "isDigit c" using assms(2) ds by simp
  then have "c \<noteq> CHR ''+''" "c \<noteq> CHR ''-''" "c \<noteq> CHR ''I''" by (auto simp: isDigit_def)
  then show ?thesis
    using unsignedDecimal_digits [OF assms] ds by (simp add: signedDecimal_def)
qed

lemma Number_digits: "list_all isDigit ds \<Longrightarrow> Number ds = Fin (of_nat (decimalValue ds))"
proof (cases "ds = []")
  case True
  then show ?thesis by (simp add: Number_def trim_Nil decimalValue_def)
next
  case False
  assume "list_all isDigit ds"
  then show ?thesis
    using False by (simp add: Number_def trim_digits nonDecimalLiteral_digits signedDecimal_digits)
qed

lemma coerceDias_value: "coerceDias v = Some (Fin (of_nat (decimalValue (filter isDigit (jsString v)))))"
  by (simp add: coerceDias_def Number_digits list_all_iff isNaN_def)

section \<open>Basic facts: the row mapper\<close>

lemma foldl_last_write:
  assumes "\<And>out e. f (step out e) = (if p e then g e else f out)"
  shows "f (foldl step out es) = (if filter p es = [] then f out else g (last (filter p es)))"
proof (induction es rule: rev_induct)
  case Nil
  then show ?case by simp
next
  case (snoc e es)
  show ?case
  proof (cases "p e")
    case True
    then show ?thesis using assms by simp
  next
    case False
    then show ?thesis using assms snoc by simp
  qed
qed

lemma dias_assignField:
  "diasAtrasado (assignField env out k v) = (if k = K_diasAtrasado then nullable (coerceDias v) else diasAtrasado out)"
  by (cases k) simp_all

lemma pendencias_assignField:
  "pendencias (assignField env out k v) = (if k = K_pendencias then Some (splitPendencias v) else pendencias out)"
  by (cases k) simp_all

lemma dias_mapColumn:
  "diasAtrasado (mapColumn env out e) =
     (if mapHeaderToKey (normalizeHeader (fst e)) = Key K_diasAtrasado then nullable (coerceDias (snd e))
      else diasAtrasado out)"
  by (simp add: mapColumn_def dias_assignField split: resolved.splits)

lemma pendencias_mapColumn:
  "pendencias (mapColumn env out e) =
     (if mapHeaderToKey (normalizeHeader (fst e)) = Key K_pendencias then Some (splitPendencias (snd e))
      else pendencias out)"
  by (simp add: mapColumn_def pendencias_assignField split: resolved.splits)

lemma dias_mapColumns:
  "diasAtrasado (mapColumns env row) =
     (if columnsFor K_diasAtrasado row = [] then Absent
      else nullable (coerceDias (snd (last (columnsFor K_diasAtrasado row)))))"
  unfolding mapColumns_def columnsFor_def
  by (subst foldl_last_write [where f = diasAtrasado and g = "\<lambda>e. nullable (coerceDias (snd e))", OF dias_mapColumn])
     (simp add: newCliente_def)

lemma pendencias_mapColumns:
  "pendencias (mapColumns env row) =
     (if columnsFor K_pendencias row = [] then None
      else Some (splitPendencias (snd (last (columnsFor K_pendencias row)))))"
  unfolding mapColumns_def columnsFor_def
  by (subst foldl_last_write [where f = pendencias and g = "\<lambda>e. Some (splitPendencias (snd e))", OF pendencias_mapColumn])
     (simp add: newCliente_def)

lemma pendencias_fallbackDias: "pendencias (fallbackDias now out) = pendencias out"
  by (simp add: fallbackDias_def split: optional.splits)

lemma cidade_assignField:
  "cidade (assignField env out k v) = (if k = K_cidade then Some (coerceText v) else cidade out)"
  by (cases k) simp_all

lemma cidade_mapColumn:
  "cidade (mapColumn env out e) =
     (if mapHeaderToKey (normalizeHeader (fst e)) = Key K_cidade then Some (coerceText (snd e))
      else cidade out)"
  by (simp add: mapColumn_def cidade_assignField split: resolved.splits)

lemma cidade_mapColumns:
  "cidade (mapColumns env row) =
     (if columnsFor K_cidade row = [] then None
      else Some (coerceText (snd (last (columnsFor K_cidade row)))))"
  unfolding mapColumns_def columnsFor_def
  by (subst foldl_last_write [where f = cidade and g = "\<lambda>e. Some (coerceText (snd e))", OF cidade_mapColumn])
     (simp add: newCliente_def)

lemma cidade_fallbackDias: "cidade (fallbackDias now out) = cidade out"
  by (simp add: fallbackDias_def split: optional.splits)

lemma coerceDias_nonneg: "coerceDias v = Some n \<Longrightarrow> jsAtLeast n 0"
  by (auto simp: coerceDias_value jsAtLeast_def)

lemma overdueDays_nonneg: "jsAtLeast (overdueDays now dt) 0"
  by (simp add: overdueDays_def jsAtLeast_def Let_def split: jsdate.splits)

lemma dias_mapColumns_nonneg:
  "diasAtrasado (mapColumns env row) = Present n \<Longrightarrow> jsAtLeast n 0"
  by (auto simp: dias_mapColumns nullable_def coerceDias_value jsAtLeast_def split: if_splits)

lemma dias_mapRow_cases:
  "diasAtrasado (mapRow env now row) =
     (case diasAtrasado (mapColumns env row) of
        Present n \<Rightarrow> Present n
      | _ \<Rightarrow> (case dataLimiteProtocolo (mapColumns env row) of
                Present dt \<Rightarrow> Present (overdueDays now dt)
              | _ \<Rightarrow> diasAtrasado (mapColumns env row)))"
  by (simp add: mapRow_def fallbackDias_def split: optional.splits)

lemma dias_mapRow_nonneg:
  "diasAtrasado (mapRow env now row) = Present n \<Longrightarrow> jsAtLeast n 0"
  by (auto simp: dias_mapRow_cases overdueDays_nonneg dias_mapColumns_nonneg split: optional.splits)

section \<open>Worked rows\<close>

lemma resolve_dias: "mapHeaderToKey (normalizeHeader ''Quantos dias esta atrasado'') = Key K_diasAtrasado"
  by code_simp
lemma resolve_protocolo: "mapHeaderToKey (normalizeHeader ''Data limite para protocolo'') = Key K_dataLimiteProtocolo"
  by code_simp
lemma resolve_cidade: "mapHeaderToKey (normalizeHeader ''Cidade'') = Key K_cidade"
  by code_simp

lemma objectEntries_plain: "list_all (\<lambda>e. \<not> isArrayIndex (fst e)) obj \<Longrightarrow> objectEntries obj = obj"
  by (simp add: objectEntries_def list_all_iff)

lemma not_index_letter: "\<not> isDigit c \<Longrightarrow> \<not> isArrayIndex (c # cs)"
  by (simp add: isArrayIndex_def)

lemma newDateYMD_int:
  "newDateYMD env (Fin (of_int y)) (Fin (of_int m)) (Fin (of_int d)) =
     timeClip (makeDay (if 0 \<le> y \<and> y \<le> 99 then 1900 + y else y) m d * msPerDay
               - localTZA env (makeDay (if 0 \<le> y \<and> y \<le> 99 then 1900 + y else y) m d * msPerDay) False)"
  by (simp add: newDateYMD_def truncRat_def Let_def)

lemma makeDay_2022_03_05: "makeDay 2022 2 5 = 19056"
  by (simp add: makeDay_def dayFromYear_def inLeapYear_def daysBeforeMonth_def Let_def)

lemma date_2022_03_05: "newDateYMD strictPlatform (Fin 2022) (Fin 2) (Fin 5) = DateAt 1646438400000"
  using newDateYMD_int [of strictPlatform 2022 2 5]
  by (simp add: makeDay_2022_03_05 strictPlatform_def timeClip_def msPerDay_def)

lemma parse_2022_03_05: "parseDate strictPlatform (TextCell ''05/03/2022'') = Some (DateAt 1646438400000)"
proof -
  have a: "trim ''05/03/2022'' = ''05/03/2022''" by (simp add: trim_def isSpace_def)
  have b: "splitOn (\<lambda>c. c = CHR ''/'') ''05/03/2022'' = [''05'', ''03'', ''2022'']" by simp
  have c: "Number ''05'' = Fin 5" "Number ''03'' = Fin 3" "Number ''2022'' = Fin 2022"
    by (simp_all add: Number_digits isDigit_def decimalValue_def digitVal_def)
  show ?thesis
    by (simp add: parseDate_def a b c isNaN_def jsMinusOne_def jsGreater_def date_2022_03_05)
qed

lemma row_deadline_overdue: "diasAtrasado (mapRow strictPlatform 1647302400000 [(''Data limite para protocolo'', TextCell ''05/03/2022'')]) = Present (Fin 10)"
  by (simp add: mapRow_def mapColumns_def objectEntries_plain not_index_letter isDigit_def mapColumn_def resolve_protocolo
      parse_2022_03_05 nullable_def newCliente_def fallbackDias_def overdueDays_def)

lemma resolve_nome: "mapHeaderToKey (normalizeHeader ''Cliente Novo'') = Key K_nome"
  by code_simp

lemma mapColumns_single:
  "list_all (\<lambda>e. \<not> isArrayIndex (fst e)) row \<Longrightarrow> mapColumns env row = foldl (mapColumn env) (newCliente row) row"
  by (simp add: mapColumns_def objectEntries_plain)

lemma row_deadline_columns:
  "mapColumns strictPlatform [(''Data limite para protocolo'', TextCell ''05/03/2022'')] =
     (newCliente [(''Data limite para protocolo'', TextCell ''05/03/2022'')])
       \<lparr>dataLimiteProtocolo := Present (DateAt 1646438400000)\<rparr>"
  by (simp add: mapColumns_single not_index_letter isDigit_def mapColumn_def resolve_protocolo
      parse_2022_03_05 nullable_def)

lemma coerce_7: "coerceDias (TextCell ''7'') = Some (Fin 7)"
  by (simp add: coerceDias_value isDigit_def decimalValue_def digitVal_def)

lemma coerce_blank: "coerceDias (TextCell []) = Some (Fin 0)"
  by (simp add: coerceDias_value decimalValue_def)

lemma coerce_abc: "coerceDias (TextCell ''abc'') = Some (Fin 0)"
  by (simp add: coerceDias_value isDigit_def decimalValue_def)

lemma coerce_minus_5: "coerceDias (NumCell (- 5)) = Some (Fin 5)"
  by (simp add: coerceDias_value showInt_def showNat.simps digitChar_def isDigit_def decimalValue_def digitVal_def)

lemma row_supplied_columns:
  "mapColumns strictPlatform
     [(''Quantos dias esta atrasado'', TextCell ''7''), (''Data limite para protocolo'', TextCell ''05/03/2022'')] =
   (newCliente [(''Quantos dias esta atrasado'', TextCell ''7''), (''Data limite para protocolo'', TextCell ''05/03/2022'')])
     \<lparr>dataLimiteProtocolo := Present (DateAt 1646438400000), diasAtrasado := Present (Fin 7)\<rparr>"
  by (simp add: mapColumns_single not_index_letter isDigit_def mapColumn_def resolve_protocolo resolve_dias
      parse_2022_03_05 nullable_def coerce_7)

lemma row_blank_columns:
  "mapColumns strictPlatform
     [(''Quantos dias esta atrasado'', TextCell []), (''Data limite para protocolo'', TextCell ''05/03/2022'')] =
   (newCliente [(''Quantos dias esta atrasado'', TextCell []), (''Data limite para protocolo'', TextCell ''05/03/2022'')])
     \<lparr>dataLimiteProtocolo := Present (DateAt 1646438400000), diasAtrasado := Present (Fin 0)\<rparr>"
  by (simp add: mapColumns_single not_index_letter isDigit_def mapColumn_def resolve_protocolo resolve_dias
      parse_2022_03_05 nullable_def coerce_blank)

section \<open>The overdue-days field\<close>

text \<open>
  Claim C2 says that a cell without digits coerces to \<^verbatim>\<open>null\<close> and leaves the record to the
  fallback. The code does not do so: the residue of such a cell is the empty text,
  \<^verbatim>\<open>Number("")\<close> is \<open>0\<close>, the \<^verbatim>\<open>isNaN\<close> branch is never taken, and the record carries \<open>0\<close>, which
  the fallback then leaves alone although a protocol deadline is present.
\<close>

theorem coerceDias_without_digits_is_zero:
  "coerceDias v \<noteq> None
   \<and> coerceDias (TextCell ''abc'') = Some (Fin 0)
   \<and> coerceDias (TextCell []) = Some (Fin 0)
   \<and> diasAtrasado (mapRow strictPlatform 1647302400000
        [(''Quantos dias esta atrasado'', TextCell []),
         (''Data limite para protocolo'', TextCell ''05/03/2022'')]) = Present (Fin 0)"
proof -
  have "coerceDias v \<noteq> None"
    by (simp add: coerceDias_value)
  then show ?thesis
    by (simp add: coerce_abc coerce_blank mapRow_def row_blank_columns fallbackDias_def newCliente_def)
qed

text \<open>
  Claim C10: whenever the overdue-days field of a mapped record is a number, it is at least
  zero, both for a value coerced from a cell (the minus sign is stripped with every other
  non-digit) and for a value computed by the fallback.
\<close>

theorem diasAtrasado_never_negative:
  "(diasAtrasado (mapRow env now row) = Present n \<longrightarrow> jsAtLeast n 0)
   \<and> (coerceDias v = Some m \<longrightarrow> jsAtLeast m 0)
   \<and> jsAtLeast (overdueDays now dt) 0"
  using dias_mapRow_nonneg coerceDias_nonneg overdueDays_nonneg by blast

theorem diasAtrasado_never_negative_witness:
  "diasAtrasado (mapRow strictPlatform 1647302400000
      [(''Data limite para protocolo'', TextCell ''05/03/2022'')]) = Present (Fin 10)
   \<and> jsAtLeast (Fin 10) 0
   \<and> coerceDias (NumCell (- 5)) = Some (Fin 5)
   \<and> jsAtLeast (Fin 5) 0"
  using diasAtrasado_never_negative
    [of strictPlatform 1647302400000 "[(''Data limite para protocolo'', TextCell ''05/03/2022'')]"
        "Fin 10" "NumCell (- 5)" "Fin 5"]
  by (simp add: row_deadline_overdue coerce_minus_5)

lemma overdueDays_max: "overdueDays now (DateAt t) = Fin (of_int (max 0 ((now - t) div msPerDay)))"
  by (simp add: overdueDays_def msPerDay_def Let_def max_def)

text \<open>
  Claim C8: the fallback never overwrites a supplied value (a row with a column for the
  field ends with what that column coerces to); when the field is absent or null after
  the columns and the protocol deadline is a date, the mapper assigns
  \<open>max 0 \<lfloor>(now - deadline) / day\<rfloor>\<close>, which is never negative; a deadline ten days (and less
  than one more day) in the past gives \<open>10\<close>.
\<close>

theorem overdue_days_fallback:
  "(diasAtrasado (mapColumns env row) = Present n \<longrightarrow> diasAtrasado (mapRow env now row) = Present n)
   \<and> ((diasAtrasado (mapColumns env row) = Absent \<or> diasAtrasado (mapColumns env row) = IsNull)
        \<and> dataLimiteProtocolo (mapColumns env row) = Present (DateAt t)
      \<longrightarrow> diasAtrasado (mapRow env now row) = Present (Fin (of_int (max 0 ((now - t) div msPerDay))))
          \<and> jsAtLeast (Fin (of_int (max 0 ((now - t) div msPerDay)))) 0)
   \<and> (0 \<le> r \<and> r < msPerDay
      \<longrightarrow> overdueDays (t + 10 * msPerDay + r) (DateAt t) = Fin 10)
   \<and> (columnsFor K_diasAtrasado row \<noteq> []
      \<longrightarrow> diasAtrasado (mapRow env now row)
            = nullable (coerceDias (snd (last (columnsFor K_diasAtrasado row)))))"
proof (intro conjI impI)
  assume "diasAtrasado (mapColumns env row) = Present n"
  then show "diasAtrasado (mapRow env now row) = Present n"
    by (simp add: dias_mapRow_cases)
next
  assume "columnsFor K_diasAtrasado row \<noteq> []"
  then have "diasAtrasado (mapColumns env row)
      = Present (Fin (of_nat (decimalValue (filter isDigit (jsString (snd (last (columnsFor K_diasAtrasado row))))))))"
    by (simp add: dias_mapColumns coerceDias_value nullable_def)
  then show "diasAtrasado (mapRow env now row)
      = nullable (coerceDias (snd (last (columnsFor K_diasAtrasado row))))"
    by (simp add: dias_mapRow_cases coerceDias_value nullable_def)
next
  assume a: "(diasAtrasado (mapColumns env row) = Absent \<or> diasAtrasado (mapColumns env row) = IsNull)
        \<and> dataLimiteProtocolo (mapColumns env row) = Present (DateAt t)"
  then show "diasAtrasado (mapRow env now row) = Present (Fin (of_int (max 0 ((now - t) div msPerDay))))"
    by (auto simp: dias_mapRow_cases overdueDays_max)
  show "jsAtLeast (Fin (of_int (max 0 ((now - t) div msPerDay)))) 0"
    by (simp add: jsAtLeast_def)
next
  assume "0 \<le> r \<and> r < msPerDay"
  then have "r div msPerDay = 0"
    by (simp add: div_pos_pos_trivial)
  moreover have "msPerDay \<noteq> 0"
    by (simp add: msPerDay_def)
  ultimately have "(10 * msPerDay + r) div msPerDay = 10"
    using div_mult_self3 [of msPerDay 10 r] by simp
  moreover have "t + 10 * msPerDay + r - t = 10 * msPerDay + r"
    by simp
  ultimately show "overdueDays (t + 10 * msPerDay + r) (DateAt t) = Fin 10"
    unfolding overdueDays_max by simp
qed


theorem overdue_days_fallback_witness:
  "diasAtrasado (mapColumns strictPlatform
      [(''Quantos dias esta atrasado'', TextCell ''7''),
       (''Data limite para protocolo'', TextCell ''05/03/2022'')]) = Present (Fin 7)
   \<and> diasAtrasado (mapRow strictPlatform 1647302400000
      [(''Quantos dias esta atrasado'', TextCell ''7''),
       (''Data limite para protocolo'', TextCell ''05/03/2022'')]) = Present (Fin 7)
   \<and> diasAtrasado (mapColumns strictPlatform
      [(''Data limite para protocolo'', TextCell ''05/03/2022'')]) = Absent
   \<and> dataLimiteProtocolo (mapColumns strictPlatform
      [(''Data limite para protocolo'', TextCell ''05/03/2022'')]) = Present (DateAt 1646438400000)
   \<and> diasAtrasado (mapRow strictPlatform 1647302400000
      [(''Data limite para protocolo'', TextCell ''05/03/2022'')]) = Present (Fin 10)
   \<and> overdueDays (1646438400000 + 10 * msPerDay + 3600000) (DateAt 1646438400000) = Fin 10
   \<and> columnsFor K_diasAtrasado
      [(''Quantos dias esta atrasado'', TextCell ''7''),
       (''Data limite para protocolo'', TextCell ''05/03/2022'')]
      = [(''Quantos dias esta atrasado'', TextCell ''7'')]
   \<and> diasAtrasado (mapRow strictPlatform 1647302400000
      [(''Quantos dias esta atrasado'', TextCell ''7''),
       (''Data limite para protocolo'', TextCell ''05/03/2022'')])
      = nullable (coerceDias (TextCell ''7''))"
proof -
  let ?r1 = "[(''Quantos dias esta atrasado'', TextCell ''7''),
       (''Data limite para protocolo'', TextCell ''05/03/2022'')]"
  let ?r2 = "[(''Data limite para protocolo'', TextCell ''05/03/2022'')]"
  have a: "diasAtrasado (mapColumns strictPlatform ?r1) = Present (Fin 7)"
    by (simp add: row_supplied_columns)
  have b: "diasAtrasado (mapColumns strictPlatform ?r2) = Absent"
    by (simp add: row_deadline_columns newCliente_def)
  have c: "dataLimiteProtocolo (mapColumns strictPlatform ?r2) = Present (DateAt 1646438400000)"
    by (simp add: row_deadline_columns)
  have d: "(0::int) \<le> 3600000 \<and> (3600000::int) < msPerDay"
    by (simp add: msPerDay_def)
  have e: "max (0::int) ((1647302400000 - 1646438400000) div msPerDay) = 10"
    by (simp add: msPerDay_def)
  from overdue_days_fallback [where env = strictPlatform and row = ?r1 and n = "Fin 7"
      and now = 1647302400000]
  have f: "diasAtrasado (mapRow strictPlatform 1647302400000 ?r1) = Present (Fin 7)"
    using a by blast
  from overdue_days_fallback [where env = strictPlatform and row = ?r2 and now = 1647302400000
      and t = 1646438400000 and r = 3600000]
  have g: "diasAtrasado (mapRow strictPlatform 1647302400000 ?r2) = Present (Fin 10)"
    and h: "overdueDays (1646438400000 + 10 * msPerDay + 3600000) (DateAt 1646438400000) = Fin 10"
    using b c d e by auto
  have k: "columnsFor K_diasAtrasado ?r1 = [(''Quantos dias esta atrasado'', TextCell ''7'')]"
    by (simp add: columnsFor_def objectEntries_plain not_index_letter isDigit_def resolve_dias
        resolve_protocolo)
  from overdue_days_fallback [where env = strictPlatform and row = ?r1 and now = 1647302400000]
  have l: "diasAtrasado (mapRow strictPlatform 1647302400000 ?r1) = nullable (coerceDias (TextCell ''7''))"
    unfolding k by simp
  from a b c f g h k l show ?thesis by blast
qed

section \<open>The pendency list of a mapped record\<close>

text \<open>
  Claim C3, as amended: the \<^verbatim>\<open>pendencias\<close> field of a mapped record is a list exactly when
  some column of the row resolves to that field, and it is then what \<^verbatim>\<open>splitPendencias\<close>
  makes of the last such column; otherwise the field is absent, and the pendency table
  reads an absent field as the empty list.
\<close>

theorem pendencias_list_iff_column:
  "pendencias (mapRow env now row) =
     (if columnsFor K_pendencias row = [] then None
      else Some (splitPendencias (snd (last (columnsFor K_pendencias row)))))
   \<and> pendenciasFlat [mapRow env now row] =
     (if columnsFor K_pendencias row = [] then []
      else splitPendencias (snd (last (columnsFor K_pendencias row))))"
  by (simp add: mapRow_def pendencias_fallbackDias pendencias_mapColumns pendenciasFlat_def)

text \<open>As first stated, C3 promises a list for every row. A row with no pendency column
  gives a record without the field.\<close>

theorem pendencias_absent_counterexample:
  "pendencias (mapRow strictPlatform 0 [(''Cidade'', TextCell ''Recife'')]) = None"
  by (simp add: mapRow_def pendencias_fallbackDias mapColumns_single not_index_letter isDigit_def
      mapColumn_def resolve_cidade newCliente_def)

section \<open>The list field\<close>


lemma splitOn_no_separator: "list_all (\<lambda>c. \<not> d c) s \<Longrightarrow> splitOn d s = [s]"
  by (induction s) auto

lemma splitOn_at_separator:
  "list_all (\<lambda>c. \<not> d c) p \<Longrightarrow> d r \<Longrightarrow> splitOn d (p @ r # rs) = p # splitOn d rs"
  by (induction p) auto







lemma dropWhile_fixed: "xs = [] \<or> \<not> P (hd xs) \<Longrightarrow> dropWhile P xs = xs"
  by (cases xs) auto

lemma trim_trim: "trim (trim s) = trim s"
proof -
  let ?a = "dropWhile isSpace s"
  let ?b = "dropWhile isSpace (rev ?a)"
  have a: "?a = [] \<or> \<not> isSpace (hd ?a)" using hd_dropWhile [of isSpace s] by blast
  have b: "?b = [] \<or> \<not> isSpace (hd ?b)" using hd_dropWhile [of isSpace "rev ?a"] by blast
  have c: "rev ?b = [] \<or> \<not> isSpace (hd (rev ?b))"
  proof (cases "?b = []")
    case True then show ?thesis by simp
  next
    case False
    have "?a \<noteq> []" using False by (metis dropWhile.simps(1) rev.simps(1))
    then have na: "\<not> isSpace (hd ?a)" using a by blast
    have "rev ?a = takeWhile isSpace (rev ?a) @ ?b" by simp
    then have "?a = rev ?b @ rev (takeWhile isSpace (rev ?a))"
      by (metis rev_append rev_rev_ident)
    then have "hd ?a = hd (rev ?b)" using False by (metis hd_append2 rev_is_Nil_conv)
    then show ?thesis using na by simp
  qed
  have "dropWhile isSpace (rev ?b) = rev ?b"
    using c by (rule dropWhile_fixed [where P = isSpace])
  moreover have "dropWhile isSpace ?b = ?b"
    using b by (rule dropWhile_fixed [where P = isSpace])
  ultimately show ?thesis by (simp add: trim_def)
qed








section \<open>The count tables\<close>

subsection \<open>Count tables\<close>

lemma proto_inherited: "''__proto__'' \<in> set inheritedNames"
  by (simp add: inheritedNames_def)

lemma map_of_setProp_other: "k' \<noteq> k \<Longrightarrow> map_of (setProp obj k v) k' = map_of obj k'"
  by (simp add: setProp_def update_conv')

lemma map_of_setProp_same: "k \<noteq> ''__proto__'' \<Longrightarrow> map_of (setProp obj k v) k = Some v"
  by (simp add: setProp_def update_conv')

lemma distinct_setProp: "distinct (map fst obj) \<Longrightarrow> distinct (map fst (setProp obj k v))"
  by (simp add: setProp_def distinct_update)

lemma map_of_countUp_other: "k' \<noteq> k \<Longrightarrow> map_of (countUp acc k) k' = map_of acc k'"
  by (simp add: countUp_def map_of_setProp_other)

lemma map_of_countUp_same:
  assumes "k \<notin> set inheritedNames"
  shows "map_of (countUp acc k) k =
           Some (case map_of acc k of None \<Rightarrow> Count 1 | Some (Count n) \<Rightarrow> Count (n + 1) | Some NotNumber \<Rightarrow> NotNumber)"
proof -
  have "k \<noteq> ''__proto__''" using assms proto_inherited by blast
  then show ?thesis
    using assms by (simp add: countUp_def map_of_setProp_same getProp_def split: option.splits tally.splits)
qed

lemma distinct_countUp: "distinct (map fst acc) \<Longrightarrow> distinct (map fst (countUp acc k))"
  by (simp add: countUp_def distinct_setProp)

lemma distinct_countAll: "distinct (map fst (foldl countUp [] ks))"
proof (induction ks rule: rev_induct)
  case Nil
  then show ?case by simp
next
  case (snoc k ks)
  then show ?case by (simp add: distinct_countUp)
qed

lemma map_of_countAll:
  assumes "k \<notin> set inheritedNames"
  shows "map_of (foldl countUp [] ks) k = (if count_list ks k = 0 then None else Some (Count (count_list ks k)))"
proof (induction ks rule: rev_induct)
  case Nil
  then show ?case by simp
next
  case (snoc x ks)
  show ?case
  proof (cases "x = k")
    case True
    then show ?thesis
      using snoc map_of_countUp_same [OF assms, of "foldl countUp [] ks"] by simp
  next
    case False
    then show ?thesis
      using snoc map_of_countUp_other [of k x "foldl countUp [] ks"] by simp
  qed
qed

subsection \<open>First-seen order\<close>

lemma set_firstSeen: "set (firstSeen xs) = set xs"
  by (induction xs) auto

lemma distinct_firstSeen: "distinct (firstSeen xs)"
  by (induction xs) (auto simp: distinct_removeAll)

lemma firstSeen_snoc: "firstSeen (xs @ [k]) = (if k \<in> set xs then firstSeen xs else firstSeen xs @ [k])"
  by (induction xs) auto

lemma update_keyed_present:
  "k \<in> set xs \<Longrightarrow> distinct xs \<Longrightarrow>
   AList.update k v (map (\<lambda>x. (x, g x)) xs) = map (\<lambda>x. (x, if x = k then v else g x)) xs"
  by (induction xs) auto

lemma update_keyed_absent:
  "k \<notin> set xs \<Longrightarrow> AList.update k v (map (\<lambda>x. (x, g x)) xs) = map (\<lambda>x. (x, g x)) xs @ [(k, v)]"
  by (induction xs) auto

lemma map_of_keyed: "k \<in> set xs \<Longrightarrow> map_of (map (\<lambda>x. (x, g x)) xs) k = Some (g k)"
  by (induction xs) auto

lemma map_of_keyed_absent: "k \<notin> set xs \<Longrightarrow> map_of (map (\<lambda>x. (x, g x)) xs) k = None"
  by (induction xs) auto

lemma countAll_table:
  assumes "\<forall>k \<in> set ks. k \<notin> set inheritedNames"
  shows "foldl countUp [] ks = map (\<lambda>k. (k, Count (count_list ks k))) (firstSeen ks)"
  using assms
proof (induction ks rule: rev_induct)
  case Nil
  then show ?case by simp
next
  case (snoc k ks)
  let ?t = "map (\<lambda>x. (x, Count (count_list ks x))) (firstSeen ks)"
  have ih: "foldl countUp [] ks = ?t" using snoc by simp
  have k: "k \<notin> set inheritedNames" using snoc.prems by simp
  then have kp: "k \<noteq> ''__proto__''" using proto_inherited by blast
  show ?case
  proof (cases "k \<in> set ks")
    case True
    then have inF: "k \<in> set (firstSeen ks)" by (simp add: set_firstSeen)
    have "countUp ?t k = AList.update k (Count (count_list ks k + 1)) ?t"
      using kp by (simp add: countUp_def setProp_def getProp_def map_of_keyed [OF inF])
    also have "\<dots> = map (\<lambda>x. (x, if x = k then Count (count_list ks k + 1) else Count (count_list ks x))) (firstSeen ks)"
      by (rule update_keyed_present [OF inF distinct_firstSeen])
    also have "\<dots> = map (\<lambda>x. (x, Count (count_list (ks @ [k]) x))) (firstSeen ks)"
      by (rule map_cong) auto
    finally show ?thesis using True ih by (simp add: firstSeen_snoc)
  next
    case False
    then have ninF: "k \<notin> set (firstSeen ks)" by (simp add: set_firstSeen)
    have c0: "count_list ks k = 0" using False by (simp add: count_list_0_iff)
    have "countUp ?t k = AList.update k (Count 1) ?t"
      using kp k by (simp add: countUp_def setProp_def getProp_def map_of_keyed_absent [OF ninF])
    also have "\<dots> = ?t @ [(k, Count 1)]"
      by (rule update_keyed_absent [OF ninF])
    also have "\<dots> = map (\<lambda>x. (x, Count (count_list (ks @ [k]) x))) (firstSeen ks @ [k])"
      using False c0 by (auto simp: set_firstSeen)
    finally show ?thesis using False ih by (simp add: firstSeen_snoc)
  qed
qed

subsection \<open>Enumeration and sorting\<close>

lemma mset_objectEntries: "mset (objectEntries obj) = mset obj"
  by (simp add: objectEntries_def)

lemma mset_insertBy: "mset (insertBy cmp x ys) = add_mset x (mset ys)"
  by (induction ys) auto

lemma mset_sortBy: "mset (sortBy cmp xs) = mset xs"
  by (induction xs) (auto simp: sortBy_def mset_insertBy)

lemma map_of_same_entries:
  assumes "mset ys = mset xs" "distinct (map fst xs)"
  shows "map_of ys = map_of xs"
proof -
  have "mset (map fst ys) = mset (map fst xs)" using assms(1) by simp
  then have "distinct (map fst ys)" using assms(2) mset_eq_imp_distinct_iff by blast
  moreover have "set ys = set xs" using assms(1) mset_eq_setD by blast
  ultimately show ?thesis using assms(2) map_of_inject_set by blast
qed

lemma compareValue_counts:
  "snd a \<noteq> NotNumber \<Longrightarrow> snd b \<noteq> NotNumber \<Longrightarrow> (compareValue a b \<le> 0) = (- int (countOf a) \<le> - int (countOf b))"
  by (auto simp: compareValue_def countOf_def split: tally.splits)

lemma insertBy_insort:
  "snd x \<noteq> NotNumber \<Longrightarrow> allCounts ys \<Longrightarrow>
   insertBy compareValue x ys = insort_key (\<lambda>e. - int (countOf e)) x ys"
  by (induction ys) (auto simp: allCounts_def compareValue_counts)

lemma allCounts_insort: "allCounts (insort_key f x ys) = (snd x \<noteq> NotNumber \<and> allCounts ys)"
  by (auto simp: allCounts_def list_all_iff set_insort_key)

lemma sortBy_sort_key:
  "allCounts xs \<Longrightarrow> sortBy compareValue xs = sort_key (\<lambda>e. - int (countOf e)) xs"
proof (induction xs)
  case Nil
  then show ?case by (simp add: sortBy_def)
next
  case (Cons x xs)
  then have x: "snd x \<noteq> NotNumber" and xs: "allCounts xs" by (simp_all add: allCounts_def)
  have ih: "sortBy compareValue xs = sort_key (\<lambda>e. - int (countOf e)) xs" using Cons xs by simp
  have "allCounts (sort_key (\<lambda>e. - int (countOf e)) xs)"
    using xs by (simp add: allCounts_def list_all_iff)
  then show ?case
    using insertBy_insort [OF x, of "sort_key (\<lambda>e. - int (countOf e)) xs"] ih
    by (simp add: sortBy_def sort_key_def)
qed

lemma sortBy_descending:
  assumes "allCounts xs"
  shows "sorted_wrt (\<lambda>a b. countOf b \<le> countOf a) (sortBy compareValue xs)"
proof -
  have "sorted (map (\<lambda>e. - int (countOf e)) (sort_key (\<lambda>e. - int (countOf e)) xs))"
    by (rule sorted_sort_key)
  then have "sorted_wrt (\<lambda>a b. - int (countOf a) \<le> - int (countOf b)) (sort_key (\<lambda>e. - int (countOf e)) xs)"
    by (simp add: sorted_map)
  then show ?thesis
    using assms by (simp add: sortBy_sort_key)
qed

lemma sortBy_stable:
  assumes "allCounts xs"
  shows "filter (\<lambda>e. countOf e = n) (sortBy compareValue xs) = filter (\<lambda>e. countOf e = n) xs"
proof -
  have "filter (\<lambda>e. - int (countOf e) = - int n) (sort_key (\<lambda>e. - int (countOf e)) xs)
        = filter (\<lambda>e. - int (countOf e) = - int n) xs"
    by (rule sort_key_stable)
  then show ?thesis
    using assms by (simp add: sortBy_sort_key)
qed

lemma sorted_wrt_take: "sorted_wrt R xs \<Longrightarrow> sorted_wrt R (take n xs)"
  by (induction xs arbitrary: n) (auto simp: take_Cons' dest: in_set_takeD)

lemma allCounts_table: "allCounts (map (\<lambda>k. (k, Count (g k))) xs)"
  by (simp add: allCounts_def list_all_iff)

lemma allCounts_objectEntries: "allCounts (objectEntries obj) = allCounts obj"
proof -
  have "set (objectEntries obj) = set obj"
    using mset_objectEntries [of obj] mset_eq_setD by blast
  then show ?thesis by (simp add: allCounts_def list_all_iff)
qed

subsection \<open>The two tables\<close>

lemma cityCount_keys: "cityCount clientes = foldl countUp [] (map cityKey clientes)"
  by (simp add: cityCount_def foldl_map)

lemma pendenciasCount_keys:
  "pendenciasCount clientes = foldl countUp [] (map pendenciaKey (pendenciasFlat clientes))"
  by (simp add: pendenciasCount_def foldl_map)

lemma semEspecificar_plain: "semEspecificar \<notin> set inheritedNames"
  by (simp add: semEspecificar_def inheritedNames_def)

lemma count_semEspecificar:
  "count_list (map pendenciaKey ps) semEspecificar = length (filter (\<lambda>p. p = [] \<or> p = semEspecificar) ps)"
  by (induction ps) (auto simp: pendenciaKey_def)

lemma pendenciasFlat_skips_empty:
  "pendenciasFlat clientes =
     pendenciasFlat (filter (\<lambda>c. pendencias c \<noteq> None \<and> pendencias c \<noteq> Some []) clientes)"
  by (induction clientes) (auto simp: pendenciasFlat_def split: option.splits)

lemma trim_naoInformado: "trim naoInformado = naoInformado"
  by (simp add: trim_def isSpace_def naoInformado_def)

text \<open>
  Claim C1, as amended: the bucket \<^verbatim>\<open>"Sem especificar"\<close> of the pendency table counts the
  flattened pendency entries whose label is the empty text (and those labelled with the
  bucket's own name), and is missing when there are none; the sorted table holds the same
  entry; a record whose pendency list is empty or absent contributes no entry at all.
\<close>

theorem semEspecificar_bucket:
  "map_of (pendenciasCount clientes) semEspecificar =
     (if length (filter (\<lambda>p. p = [] \<or> p = semEspecificar) (pendenciasFlat clientes)) = 0 then None
      else Some (Count (length (filter (\<lambda>p. p = [] \<or> p = semEspecificar) (pendenciasFlat clientes)))))
   \<and> map_of (pendenciasArray clientes) semEspecificar = map_of (pendenciasCount clientes) semEspecificar
   \<and> pendenciasFlat clientes =
       pendenciasFlat (filter (\<lambda>c. pendencias c \<noteq> None \<and> pendencias c \<noteq> Some []) clientes)"
proof (intro conjI)
  show "map_of (pendenciasCount clientes) semEspecificar =
     (if length (filter (\<lambda>p. p = [] \<or> p = semEspecificar) (pendenciasFlat clientes)) = 0 then None
      else Some (Count (length (filter (\<lambda>p. p = [] \<or> p = semEspecificar) (pendenciasFlat clientes)))))"
    unfolding pendenciasCount_keys map_of_countAll [OF semEspecificar_plain] count_semEspecificar ..
next
  have "distinct (map fst (pendenciasCount clientes))"
    unfolding pendenciasCount_keys by (rule distinct_countAll)
  moreover have "mset (pendenciasArray clientes) = mset (pendenciasCount clientes)"
    by (simp add: pendenciasArray_def mset_sortBy mset_objectEntries)
  ultimately have "map_of (pendenciasArray clientes) = map_of (pendenciasCount clientes)"
    by (rule map_of_same_entries [rotated])
  then show "map_of (pendenciasArray clientes) semEspecificar = map_of (pendenciasCount clientes) semEspecificar"
    by simp
next
  show "pendenciasFlat clientes =
       pendenciasFlat (filter (\<lambda>c. pendencias c \<noteq> None \<and> pendencias c \<noteq> Some []) clientes)"
    by (rule pendenciasFlat_skips_empty)
qed

text \<open>As first stated, C1 gives every record without a label one entry in the bucket. A
  collection of one record with an empty pendency list has an empty table.\<close>

theorem semEspecificar_counterexample:
  "pendencias (clienteCom []) = Some []
   \<and> pendenciasArray [clienteCom []] = []
   \<and> map_of (pendenciasArray [clienteCom []]) semEspecificar = None"
  by (simp add: clienteCom_def pendenciasArray_def pendenciasCount_def pendenciasFlat_def
      objectEntries_def sortBy_def)

lemma cityKey_mapRow:
  "cityKey (mapRow env now row) = orDefault (cidade (mapRow env now row)) naoInformado"
proof (cases "cidade (mapRow env now row)")
  case None
  then show ?thesis by (simp add: cityKey_def orDefault_def trim_naoInformado)
next
  case (Some s)
  then have "s = coerceText (snd (last (columnsFor K_cidade row)))"
    by (simp add: mapRow_def cidade_fallbackDias cidade_mapColumns split: if_splits)
  then have "trim s = s"
    by (simp add: coerceText_def trim_trim)
  then show ?thesis
    using Some by (simp add: cityKey_def orDefault_def trim_naoInformado)
qed

text \<open>
  Claim C9, as amended, for city labels that name no inherited property. The city table
  groups the records by \<open>cityKey\<close>, whose label for an absent or empty city is the default
  one (a mapped record has its city trimmed, so a blank one is empty), and is created in
  first-seen order; the top-cities table is the first ten entries
  of its stable sort by decreasing count, so it has ten entries at most, is sorted
  non-increasing by count, and keeps entries of equal count in the order in which the
  table enumerates them. That order is the first-seen order when no label is an array
  index; labels that are array indices are enumerated first, in ascending numeric order.
\<close>

theorem topCities_table:
  assumes "\<forall>c \<in> set clientes. cityKey c \<notin> set inheritedNames"
  shows "length (topCities clientes) \<le> 10
    \<and> sorted_wrt (\<lambda>a b. countOf b \<le> countOf a) (topCities clientes)
    \<and> cityCount clientes =
        map (\<lambda>k. (k, Count (count_list (map cityKey clientes) k))) (firstSeen (map cityKey clientes))
    \<and> topCities clientes = take 10 (sortBy compareValue (objectEntries (cityCount clientes)))
    \<and> mset (sortBy compareValue (objectEntries (cityCount clientes))) = mset (cityCount clientes)
    \<and> (\<forall>n. filter (\<lambda>e. countOf e = n) (sortBy compareValue (objectEntries (cityCount clientes)))
            = filter (\<lambda>e. countOf e = n) (objectEntries (cityCount clientes)))
    \<and> objectEntries (cityCount clientes) =
        sort_key (\<lambda>e. decimalValue (fst e)) (filter (\<lambda>e. isArrayIndex (fst e)) (cityCount clientes))
        @ filter (\<lambda>e. \<not> isArrayIndex (fst e)) (cityCount clientes)
    \<and> (list_all (\<lambda>c. \<not> isArrayIndex (cityKey c)) clientes
         \<longrightarrow> objectEntries (cityCount clientes) = cityCount clientes)
    \<and> cityKey (c\<lparr>cidade := None\<rparr>) = naoInformado
    \<and> cityKey (c\<lparr>cidade := Some []\<rparr>) = naoInformado
    \<and> cityKey (mapRow env now row) = orDefault (cidade (mapRow env now row)) naoInformado"
proof -
  let ?ks = "map cityKey clientes"
  let ?t = "map (\<lambda>k. (k, Count (count_list ?ks k))) (firstSeen ?ks)"
  have plain: "\<forall>k \<in> set ?ks. k \<notin> set inheritedNames" using assms by simp
  have table: "cityCount clientes = ?t"
    unfolding cityCount_keys by (rule countAll_table [OF plain])
  have counts: "allCounts (objectEntries (cityCount clientes))"
    unfolding allCounts_objectEntries table by (rule allCounts_table)
  have "sorted_wrt (\<lambda>a b. countOf b \<le> countOf a) (sortBy compareValue (objectEntries (cityCount clientes)))"
    by (rule sortBy_descending [OF counts])
  then have sorted: "sorted_wrt (\<lambda>a b. countOf b \<le> countOf a) (topCities clientes)"
    unfolding topCities_def by (rule sorted_wrt_take)
  have stable: "\<forall>n. filter (\<lambda>e. countOf e = n) (sortBy compareValue (objectEntries (cityCount clientes)))
            = filter (\<lambda>e. countOf e = n) (objectEntries (cityCount clientes))"
    using sortBy_stable [OF counts] by blast
  have plainOrder: "list_all (\<lambda>c. \<not> isArrayIndex (cityKey c)) clientes
         \<longrightarrow> objectEntries (cityCount clientes) = cityCount clientes"
  proof
    assume a: "list_all (\<lambda>c. \<not> isArrayIndex (cityKey c)) clientes"
    have "list_all (\<lambda>e. \<not> isArrayIndex (fst e)) ?t"
      using a by (auto simp: list_all_iff set_firstSeen)
    then show "objectEntries (cityCount clientes) = cityCount clientes"
      unfolding table by (rule objectEntries_plain)
  qed
  have "length (topCities clientes) \<le> 10" by (simp add: topCities_def)
  moreover have "mset (sortBy compareValue (objectEntries (cityCount clientes))) = mset (cityCount clientes)"
    by (simp add: mset_sortBy mset_objectEntries)
  moreover have "cityKey (c\<lparr>cidade := None\<rparr>) = naoInformado" "cityKey (c\<lparr>cidade := Some []\<rparr>) = naoInformado"
    by (simp_all add: cityKey_def orDefault_def trim_naoInformado)
  moreover have "topCities clientes = take 10 (sortBy compareValue (objectEntries (cityCount clientes)))"
    by (simp add: topCities_def)
  moreover have "objectEntries (cityCount clientes) =
        sort_key (\<lambda>e. decimalValue (fst e)) (filter (\<lambda>e. isArrayIndex (fst e)) (cityCount clientes))
        @ filter (\<lambda>e. \<not> isArrayIndex (fst e)) (cityCount clientes)"
    by (simp add: objectEntries_def)
  ultimately show ?thesis using sorted table stable plainOrder cityKey_mapRow by blast
qed

lemma cityKey_clienteDe: "cityKey (clienteDe s) = trim (if s = [] then naoInformado else s)"
  by (simp add: cityKey_def clienteDe_def orDefault_def newCliente_def)

lemma trim_examples: "trim ''Recife'' = ''Recife''" "trim ''Olinda'' = ''Olinda''" "trim ''7'' = ''7''"
  by (simp_all add: trim_def isSpace_def)

lemma plain_examples:
  "''Recife'' \<notin> set inheritedNames" "''Olinda'' \<notin> set inheritedNames" "''7'' \<notin> set inheritedNames"
  by (simp_all add: inheritedNames_def)

lemma index_examples: "\<not> isArrayIndex ''Recife''" "\<not> isArrayIndex ''Olinda''" "isArrayIndex ''7''"
  by (simp_all add: isArrayIndex_def isDigit_def decimalValue_def digitVal_def)

theorem topCities_table_witness:
  "cityCount [clienteDe ''Recife'', clienteDe ''Olinda'', clienteDe ''Recife'']
     = [(''Recife'', Count 2), (''Olinda'', Count 1)]
   \<and> objectEntries (cityCount [clienteDe ''Recife'', clienteDe ''Olinda'', clienteDe ''Recife''])
     = cityCount [clienteDe ''Recife'', clienteDe ''Olinda'', clienteDe ''Recife'']
   \<and> length (topCities [clienteDe ''Recife'', clienteDe ''Olinda'', clienteDe ''Recife'']) \<le> 10
   \<and> sorted_wrt (\<lambda>a b. countOf b \<le> countOf a)
        (topCities [clienteDe ''Recife'', clienteDe ''Olinda'', clienteDe ''Recife''])"
proof -
  let ?cs = "[clienteDe ''Recife'', clienteDe ''Olinda'', clienteDe ''Recife'']"
  have h: "\<forall>c \<in> set ?cs. cityKey c \<notin> set inheritedNames"
    by (simp add: cityKey_clienteDe trim_examples plain_examples)
  have i: "list_all (\<lambda>c. \<not> isArrayIndex (cityKey c)) ?cs"
    by (simp add: cityKey_clienteDe trim_examples index_examples)
  have k: "map cityKey ?cs = [''Recife'', ''Olinda'', ''Recife'']"
    by (simp add: cityKey_clienteDe trim_examples)
  have t: "map (\<lambda>k. (k, Count (count_list (map cityKey ?cs) k))) (firstSeen (map cityKey ?cs))
             = [(''Recife'', Count 2), (''Olinda'', Count 1)]"
    unfolding k by simp
  note th = topCities_table [OF h]
  from th have "cityCount ?cs = map (\<lambda>k. (k, Count (count_list (map cityKey ?cs) k))) (firstSeen (map cityKey ?cs))"
    by blast
  then have a: "cityCount ?cs = [(''Recife'', Count 2), (''Olinda'', Count 1)]"
    using t by (rule trans)
  from th i have b: "objectEntries (cityCount ?cs) = cityCount ?cs"
    by blast
  from th have c: "length (topCities ?cs) \<le> 10"
    and d: "sorted_wrt (\<lambda>a b. countOf b \<le> countOf a) (topCities ?cs)"
    by blast+
  from a b c d show ?thesis by blast
qed

text \<open>As first stated, C9 breaks ties by first-seen order for every collection. With the
  cities \<^verbatim>\<open>"Recife"\<close> and \<^verbatim>\<open>"7"\<close>, one record each and in this order, the table lists
  \<^verbatim>\<open>"7"\<close> first.\<close>

theorem topCities_tie_counterexample:
  "map cityKey [clienteDe ''Recife'', clienteDe ''7''] = [''Recife'', ''7'']
   \<and> topCities [clienteDe ''Recife'', clienteDe ''7''] = [(''7'', Count 1), (''Recife'', Count 1)]"
proof -
  have k: "map cityKey [clienteDe ''Recife'', clienteDe ''7''] = [''Recife'', ''7'']"
    by (simp add: cityKey_clienteDe trim_examples)
  have "cityCount [clienteDe ''Recife'', clienteDe ''7''] = foldl countUp [] [''Recife'', ''7'']"
    unfolding cityCount_keys k ..
  also have "\<dots> = [(''Recife'', Count 1), (''7'', Count 1)]"
    by (simp add: countUp_def getProp_def setProp_def plain_examples)
  finally have c: "cityCount [clienteDe ''Recife'', clienteDe ''7''] = [(''Recife'', Count 1), (''7'', Count 1)]" .
  have e: "objectEntries [(''Recife'', Count 1), (''7'', Count 1)] = [(''7'', Count 1), (''Recife'', Count 1)]"
    by (simp add: objectEntries_def index_examples)
  have "topCities [clienteDe ''Recife'', clienteDe ''7'']
          = take 10 (sortBy compareValue [(''7'', Count 1), (''Recife'', Count 1)])"
    unfolding topCities_def c e ..
  also have "\<dots> = [(''7'', Count 1), (''Recife'', Count 1)]"
    by (simp add: sortBy_def compareValue_def)
  finally show ?thesis using k by blast
qed

section \<open>Header resolution\<close>

subsection \<open>Substrings\<close>

lemma startsWith_iff: "startsWith s k = (\<exists>q. s = k @ q)"
proof
  assume "startsWith s k"
  then have "s = k @ drop (length k) s"
    unfolding startsWith_def by (metis append_take_drop_id)
  then show "\<exists>q. s = k @ q" ..
next
  assume "\<exists>q. s = k @ q"
  then show "startsWith s k" by (auto simp: startsWith_def)
qed

lemma strIncludes_iff: "strIncludes s k = (\<exists>p q. s = p @ k @ q)"
proof (induction s)
  case Nil
  then show ?case by auto
next
  case (Cons c cs)
  show ?case
  proof
    assume "strIncludes (c # cs) k"
    then have "startsWith (c # cs) k \<or> strIncludes cs k" by (simp split: if_splits)
    then show "\<exists>p q. c # cs = p @ k @ q"
    proof
      assume "startsWith (c # cs) k"
      then obtain q where "c # cs = k @ q" unfolding startsWith_iff by blast
      then have "c # cs = [] @ k @ q" by simp
      then show ?thesis by blast
    next
      assume "strIncludes cs k"
      then obtain p q where "cs = p @ k @ q" using Cons by blast
      then have "c # cs = (c # p) @ k @ q" by simp
      then show ?thesis by blast
    qed
  next
    assume "\<exists>p q. c # cs = p @ k @ q"
    then obtain p q where pq: "c # cs = p @ k @ q" by blast
    show "strIncludes (c # cs) k"
    proof (cases p)
      case Nil
      then have "startsWith (c # cs) k" using pq unfolding startsWith_iff by auto
      then show ?thesis by simp
    next
      case (Cons a p')
      then have "cs = p' @ k @ q" using pq by simp
      then have "strIncludes cs k" using Cons.IH by blast
      then show ?thesis by simp
    qed
  qed
qed

subsection \<open>The header table\<close>

lemma headerMap_keys_distinct: "distinct (map fst headerMap)"
  by (simp add: headerMap_def)

lemma headerMap_entries: "objectEntries headerMap = headerMap"
  by (rule objectEntries_plain) (simp add: headerMap_def not_index_letter isDigit_def)

lemma find_map_fst: "find P (map fst xs) = map_option fst (find (\<lambda>e. P (fst e)) xs)"
  by (induction xs) auto

lemma find_in_set: "find P xs = Some e \<Longrightarrow> e \<in> set xs"
  by (induction xs) (auto split: if_splits)

text \<open>For every header that names no inherited property, \<^verbatim>\<open>mapHeaderToKey\<close> returns the
  field of the exact match, else the field of the first key of the table, in the order of
  the source, that occurs in the header, else \<^verbatim>\<open>undefined\<close>.\<close>

lemma mapHeaderToKey_plain:
  assumes "normalized \<notin> set inheritedNames"
  shows "mapHeaderToKey normalized =
     (case map_of headerMap normalized of
        Some f \<Rightarrow> Key f
      | None \<Rightarrow>
          (case find (\<lambda>e. strIncludes normalized (fst e)) headerMap of
             Some e \<Rightarrow> Key (snd e)
           | None \<Rightarrow> NoKey))"
proof (cases "map_of headerMap normalized")
  case (Some f)
  then show ?thesis by (simp add: mapHeaderToKey_def getProp_def)
next
  case None
  show ?thesis
  proof (cases "find (\<lambda>e. strIncludes normalized (fst e)) headerMap")
    case n: None
    then show ?thesis
      using None assms by (simp add: mapHeaderToKey_def getProp_def headerMap_entries find_map_fst)
  next
    case (Some e)
    then have "e \<in> set headerMap" by (rule find_in_set)
    then have "(fst e, snd e) \<in> set headerMap" by simp
    then have "map_of headerMap (fst e) = Some (snd e)"
      using headerMap_keys_distinct by (rule map_of_is_SomeI [rotated])
    then show ?thesis
      using None Some assms
      by (simp add: mapHeaderToKey_def getProp_def headerMap_entries find_map_fst)
  qed
qed

lemma mapHeaderToKey_example: "mapHeaderToKey ''nome do responsavel'' = Key K_nome"
  by code_simp

text \<open>
  Claim C4 says that a header matching no key of the table resolves to nothing. The
  direct match reads \<^verbatim>\<open>headerMap[normalized]\<close> on a plain object, so a header that names an
  inherited property, such as \<^verbatim>\<open>constructor\<close> (what a column titled \<^verbatim>\<open>Constructor\<close> normalises
  to), finds the inherited value, which passes the truth test and is returned: here no key
  of the table equals the header or occurs in it, and the result is not \<^verbatim>\<open>undefined\<close>.
\<close>

theorem mapHeaderToKey_inherited_name:
  "normalizeHeader ''Constructor'' = ''constructor''
   \<and> map_of headerMap ''constructor'' = None
   \<and> find (\<lambda>k. strIncludes ''constructor'' k) (map fst headerMap) = None
   \<and> mapHeaderToKey ''constructor'' = InheritedValue"
proof (intro conjI)
  show "normalizeHeader ''Constructor'' = ''constructor''" by code_simp
  show "map_of headerMap ''constructor'' = None" by (simp add: headerMap_def)
  show "find (\<lambda>k. strIncludes ''constructor'' k) (map fst headerMap) = None"
    by (simp add: headerMap_def startsWith_def)
  show "mapHeaderToKey ''constructor'' = InheritedValue"
    by (simp add: mapHeaderToKey_def getProp_def headerMap_def inheritedNames_def)
qed

section \<open>Date parsing\<close>

subsection \<open>Years\<close>

lemma div_lower:
  fixes a :: int
  assumes "0 < m"
  shows "m * (a div m) \<le> a"
  using mult_div_mod_eq [of m a] pos_mod_sign [OF assms, of a] by linarith

lemma div_upper:
  fixes a :: int
  assumes "0 < m"
  shows "a - (m - 1) \<le> m * (a div m)"
  using mult_div_mod_eq [of m a] pos_mod_bound [OF assms, of a] by linarith

lemma dayFromYear_upper: "400 * dayFromYear y \<le> 146097 * (y - 1970) + 589"
  unfolding dayFromYear_def
  using div_lower [of 4 "y - 1969"] div_upper [of 100 "y - 1901"] div_lower [of 400 "y - 1601"]
  by simp

lemma dayFromYear_lower: "146097 * (y - 1970) - 506 \<le> 400 * dayFromYear y"
  unfolding dayFromYear_def
  using div_upper [of 4 "y - 1969"] div_lower [of 100 "y - 1901"] div_upper [of 400 "y - 1601"]
  by simp

text \<open>The estimate in \<open>yearFromTime\<close> is right: the result is the year whose days
  include the day of the time value.\<close>

lemma yearFromTime_bounds:
  "dayFromYear (yearFromTime t) \<le> t div msPerDay \<and> t div msPerDay < dayFromYear (yearFromTime t + 1)"
proof -
  define d where "d = t div msPerDay"
  define y where "y = 1970 + (400 * d) div 146097"
  have k1: "146097 * (y - 1970) \<le> 400 * d" and k2: "400 * d - 146096 \<le> 146097 * (y - 1970)"
    unfolding y_def using div_lower [of 146097 "400 * d"] div_upper [of 146097 "400 * d"] by simp_all
  have "400 * dayFromYear (y - 1) \<le> 400 * d"
    using dayFromYear_upper [of "y - 1"] k1 by (simp add: algebra_simps)
  then have a: "dayFromYear (y - 1) \<le> d"
    by simp
  have "400 * d < 400 * dayFromYear (y + 2)"
    using dayFromYear_lower [of "y + 2"] k2 by (simp add: algebra_simps)
  then have b: "d < dayFromYear (y + 2)"
    by simp
  have r: "yearFromTime t =
      (if d < dayFromYear y then y - 1 else if dayFromYear (y + 1) \<le> d then y + 1 else y)"
    by (simp add: yearFromTime_def d_def y_def Let_def)
  show ?thesis
    unfolding r d_def [symmetric] using a b by (auto simp: add.commute)
qed

lemma floor_half: "\<lfloor>(of_int z :: rat) + 1 / 2\<rfloor> = z"
  by (simp add: floor_unique)

lemma serialDate_nat: "serialDate (Fin (of_nat n)) = timeClip ((int n - 25569) * 86400 * 1000)"
proof -
  have "(of_nat n - 25569) * 86400 * 1000 + 1 / 2 = (of_int ((int n - 25569) * 86400 * 1000) :: rat) + 1 / 2"
    by simp
  then show ?thesis
    unfolding serialDate_def jsnum.case by (simp only: floor_half)
qed

subsection \<open>Day, month and year texts\<close>

lemma digits_no_slash: "list_all isDigit ds \<Longrightarrow> list_all (\<lambda>c. \<not> c = CHR ''/'') ds"
  by (auto simp: list_all_iff isDigit_def)

lemma splitOn_three:
  assumes "list_all isDigit dd" "list_all isDigit mm" "list_all isDigit yyyy"
  shows "splitOn (\<lambda>c. c = CHR ''/'') (dd @ ''/'' @ mm @ ''/'' @ yyyy) = [dd, mm, yyyy]"
proof -
  have "splitOn (\<lambda>c. c = CHR ''/'') (dd @ CHR ''/'' # (mm @ CHR ''/'' # yyyy))
          = dd # splitOn (\<lambda>c. c = CHR ''/'') (mm @ CHR ''/'' # yyyy)"
    by (rule splitOn_at_separator [OF digits_no_slash [OF assms(1)]]) simp
  also have "splitOn (\<lambda>c. c = CHR ''/'') (mm @ CHR ''/'' # yyyy) = mm # splitOn (\<lambda>c. c = CHR ''/'') yyyy"
    by (rule splitOn_at_separator [OF digits_no_slash [OF assms(2)]]) simp
  also have "splitOn (\<lambda>c. c = CHR ''/'') yyyy = [yyyy]"
    by (rule splitOn_no_separator [OF digits_no_slash [OF assms(3)]])
  finally show ?thesis by simp
qed

lemma trim_three:
  assumes "dd \<noteq> []" "list_all isDigit dd" "yyyy \<noteq> []" "list_all isDigit yyyy"
  shows "trim (dd @ ''/'' @ mm @ ''/'' @ yyyy) = dd @ ''/'' @ mm @ ''/'' @ yyyy"
proof (rule trim_no_space_ends)
  show "dd @ ''/'' @ mm @ ''/'' @ yyyy \<noteq> []" using assms(1) by simp
  have "isDigit (hd dd)" using assms(1,2) by (cases dd) auto
  then show "\<not> isSpace (hd (dd @ ''/'' @ mm @ ''/'' @ yyyy))"
    using assms(1) isDigit_not_space by simp
  have "isDigit (last yyyy)" using assms(3,4) by (simp add: list_all_iff)
  then show "\<not> isSpace (last (dd @ ''/'' @ mm @ ''/'' @ yyyy))"
    using assms(3) isDigit_not_space by simp
qed

lemma parseDate_text:
  assumes "s \<noteq> []" "trim s = s"
  shows "parseDate env (TextCell s) =
      (if length (splitOn (\<lambda>c. c = CHR ''/'') s) = 3 then
         (if \<not> isNaN (Number (splitOn (\<lambda>c. c = CHR ''/'') s ! 0))
             \<and> \<not> isNaN (jsMinusOne (Number (splitOn (\<lambda>c. c = CHR ''/'') s ! 1)))
             \<and> \<not> isNaN (Number (splitOn (\<lambda>c. c = CHR ''/'') s ! 2))
             \<and> jsGreater (Number (splitOn (\<lambda>c. c = CHR ''/'') s ! 2)) 1900
          then Some (newDateYMD env (Number (splitOn (\<lambda>c. c = CHR ''/'') s ! 2))
                       (jsMinusOne (Number (splitOn (\<lambda>c. c = CHR ''/'') s ! 1)))
                       (Number (splitOn (\<lambda>c. c = CHR ''/'') s ! 0)))
          else None)
       else
         (case dateParse env s of
            Some isoMs \<Rightarrow>
              if yearAfter1900 env (timeClip isoMs) then Some (timeClip isoMs)
              else parseSerial env s
          | None \<Rightarrow> parseSerial env s))"
  using assms by (simp add: parseDate_def Let_def)

text \<open>The accepting half of C5: three texts of decimal digits separated by slashes, the
  year above 1900, give \<^verbatim>\<open>new Date(y, m - 1, d)\<close>; a year of 1900 or less gives \<^verbatim>\<open>null\<close>.\<close>

lemma parseDate_day_month_year:
  assumes "dd \<noteq> []" "list_all isDigit dd" "mm \<noteq> []" "list_all isDigit mm"
    and "yyyy \<noteq> []" "list_all isDigit yyyy"
  shows "parseDate env (TextCell (dd @ ''/'' @ mm @ ''/'' @ yyyy)) =
     (if 1900 < decimalValue yyyy
      then Some (newDateYMD env (Fin (of_nat (decimalValue yyyy))) (Fin (of_nat (decimalValue mm) - 1))
                   (Fin (of_nat (decimalValue dd))))
      else None)"
proof -
  let ?s = "dd @ ''/'' @ mm @ ''/'' @ yyyy"
  have s: "?s \<noteq> []" using assms(1) by simp
  have t: "trim ?s = ?s" by (rule trim_three [OF assms(1,2,5,6)])
  have p: "splitOn (\<lambda>c. c = CHR ''/'') ?s = [dd, mm, yyyy]"
    by (rule splitOn_three [OF assms(2,4,6)])
  have n: "Number dd = Fin (of_nat (decimalValue dd))" "Number mm = Fin (of_nat (decimalValue mm))"
    "Number yyyy = Fin (of_nat (decimalValue yyyy))"
    using assms by (simp_all add: Number_digits)
  have e: "[dd, mm, yyyy] ! 0 = dd" "[dd, mm, yyyy] ! 1 = mm" "[dd, mm, yyyy] ! 2 = yyyy"
    "length [dd, mm, yyyy] = 3"
    by simp_all
  show ?thesis
    unfolding parseDate_text [OF s t] p e n
    by (simp add: isNaN_def jsMinusOne_def jsGreater_def)
qed

lemma parseDate_digits:
  assumes "s \<noteq> []" "list_all isDigit s"
  shows "parseDate env (TextCell s) =
     (case dateParse env s of
        Some isoMs \<Rightarrow>
          if yearAfter1900 env (timeClip isoMs) then Some (timeClip isoMs) else parseSerial env s
      | None \<Rightarrow> parseSerial env s)"
proof -
  have t: "trim s = s" by (rule trim_digits [OF assms(2)])
  have p: "splitOn (\<lambda>c. c = CHR ''/'') s = [s]"
    by (rule splitOn_no_separator [OF digits_no_slash [OF assms(2)]])
  show ?thesis
    unfolding parseDate_text [OF assms(1) t] p by simp
qed

lemma parseSerial_digits:
  assumes "list_all isDigit s"
  shows "parseSerial env s =
     (if 0 < decimalValue s \<and> yearAfter1900 env (timeClip ((int (decimalValue s) - 25569) * 86400 * 1000))
      then Some (timeClip ((int (decimalValue s) - 25569) * 86400 * 1000)) else None)"
  unfolding parseSerial_def Number_digits [OF assms] Let_def serialDate_nat
  by (simp add: isNaN_def jsGreater_def)

lemma day_of_time:
  assumes "a * msPerDay \<le> t" "t \<le> b * msPerDay"
  shows "a \<le> t div msPerDay \<and> t div msPerDay \<le> b"
proof -
  have m: "0 < msPerDay" by (simp add: msPerDay_def)
  have "(a * msPerDay) div msPerDay \<le> t div msPerDay"
    using assms(1) m by (intro zdiv_mono1) simp_all
  moreover have "t div msPerDay \<le> (b * msPerDay) div msPerDay"
    using assms(2) m by (intro zdiv_mono1) simp_all
  ultimately show ?thesis using m by simp
qed

lemma year_of_day_2020:
  assumes "18430 \<le> d" "d \<le> 18432"
  shows "(if d < dayFromYear (1970 + (400 * d) div 146097) then 1970 + (400 * d) div 146097 - 1
          else if dayFromYear (1970 + (400 * d) div 146097 + 1) \<le> d then 1970 + (400 * d) div 146097 + 1
          else 1970 + (400 * d) div 146097) = 2020"
proof -
  have "d = 18430 \<or> d = 18431 \<or> d = 18432" using assms by arith
  then show ?thesis by (auto simp: dayFromYear_def)
qed

lemma year_2020_06_18:
  assumes "\<bar>z\<bar> \<le> msPerDay"
  shows "yearFromTime (1592438400000 + z) = 2020"
proof -
  have "18430 * msPerDay \<le> 1592438400000 + z" "1592438400000 + z \<le> 18432 * msPerDay"
    using assms by (simp_all add: msPerDay_def)
  from day_of_time [OF this] year_of_day_2020 show ?thesis
    by (simp add: yearFromTime_def Let_def)
qed

text \<open>What the serial attempt does, for every text that reaches it: a text that is not
  empty, is trimmed and has not three parts reaches it when \<^verbatim>\<open>Date.parse\<close> gives no date
  with a year above 1900; a text that \<^verbatim>\<open>Number\<close> reads as the number \<open>q\<close> then gives the
  time value \<open>(q - 25569) * 86400 * 1000\<close>, rounded, when \<open>q\<close> is positive and the year of
  that time exceeds 1900, and \<^verbatim>\<open>null\<close> otherwise.\<close>

lemma parseDate_reaches_serial:
  assumes "s \<noteq> []" "trim s = s" "length (splitOn (\<lambda>c. c = CHR ''/'') s) \<noteq> 3"
    and "case dateParse env s of None \<Rightarrow> True | Some ms \<Rightarrow> \<not> yearAfter1900 env (timeClip ms)"
  shows "parseDate env (TextCell s) = parseSerial env s"
  using assms(3,4) unfolding parseDate_text [OF assms(1,2)] by (simp split: option.splits)

lemma parseSerial_number:
  assumes "Number s = Fin q"
  shows "parseSerial env s =
     (if 0 < q \<and> yearAfter1900 env (timeClip \<lfloor>(q - 25569) * 86400 * 1000 + 1 / 2\<rfloor>)
      then Some (timeClip \<lfloor>(q - 25569) * 86400 * 1000 + 1 / 2\<rfloor>) else None)"
  unfolding parseSerial_def assms Let_def
  by (simp add: isNaN_def jsGreater_def serialDate_def)

lemma parseDate_serial_digits:
  assumes "s \<noteq> []" "list_all isDigit s"
    and "case dateParse env s of None \<Rightarrow> True | Some ms \<Rightarrow> \<not> yearAfter1900 env (timeClip ms)"
  shows "parseDate env (TextCell s) =
          (if 0 < decimalValue s
              \<and> yearAfter1900 env (timeClip ((int (decimalValue s) - 25569) * 86400 * 1000))
           then Some (timeClip ((int (decimalValue s) - 25569) * 86400 * 1000)) else None)"
proof -
  have "parseDate env (TextCell s) = parseSerial env s"
    using assms by (simp add: parseDate_digits split: option.splits)
  then show ?thesis
    using assms(2) by (simp add: parseSerial_digits)
qed

lemma digits_44000: "''44000'' \<noteq> []" "list_all isDigit ''44000''" "decimalValue ''44000'' = 44000"
  by (simp_all add: isDigit_def decimalValue_def digitVal_def)

lemma serial_44000: "timeClip ((int 44000 - 25569) * 86400 * 1000) = DateAt 1592438400000"
  by (simp add: timeClip_def)

lemma parseSerial_44000:
  assumes "\<bar>localTZA env 1592438400000 True\<bar> \<le> msPerDay"
  shows "parseSerial env ''44000'' = Some (DateAt 1592438400000)"
    and "getFullYear env (DateAt 1592438400000) = Some 2020"
proof -
  show y: "getFullYear env (DateAt 1592438400000) = Some 2020"
    using assms by (simp add: getFullYear_def year_2020_06_18)
  show "parseSerial env ''44000'' = Some (DateAt 1592438400000)"
    unfolding parseSerial_digits [OF digits_44000(2)] digits_44000(3) serial_44000
    by (simp add: yearAfter1900_def y)
qed

lemma showInt_44000: "showInt 44000 = ''44000''"
  by (simp add: showInt_def showNat.simps digitChar_def)

lemma parseDate_NumCell_44000: "parseDate env (NumCell 44000) = parseDate env (TextCell ''44000'')"
  by (simp add: parseDate_def showInt_44000)

text \<open>
  Claim C6 says that \<^verbatim>\<open>parseDate("44000")\<close> is a date in the year 2020, the day the serial
  44000 stands for, and the comments of the code say as much: a number is a spreadsheet
  serial to convert. The code asks \<^verbatim>\<open>Date.parse\<close> first. On the V8 engine that parser reads
  the lone number as a year, the year 44000 exceeds 1900, and that date is returned: the
  serial attempt, which would give 2020-06-18, is not reached, for the text and for the
  numeric cell alike. A row whose protocol deadline is the cell 44000, mapped on
  2022-03-15, gets 0 overdue days where the serial date gives 635.
\<close>

theorem parseDate_44000_year_44000:
  "parseDate lenientPlatform (TextCell ''44000'') = Some (DateAt 1326338668800000)
   \<and> parseDate lenientPlatform (NumCell 44000) = Some (DateAt 1326338668800000)
   \<and> getFullYear lenientPlatform (DateAt 1326338668800000) = Some 44000
   \<and> parseSerial lenientPlatform ''44000'' = Some (DateAt 1592438400000)
   \<and> getFullYear lenientPlatform (DateAt 1592438400000) = Some 2020
   \<and> diasAtrasado (mapRow lenientPlatform 1647302400000
        [(''Data limite para protocolo'', NumCell 44000)]) = Present (Fin 0)
   \<and> overdueDays 1647302400000 (DateAt 1592438400000) = Fin 635"
proof -
  have p: "dateParse lenientPlatform ''44000'' = Some 1326338668800000"
    using digits_44000(2)
    by (simp add: lenientPlatform_def loneNumberDate_def digits_44000(3) dayFromYear_def msPerDay_def)
  have c: "timeClip 1326338668800000 = DateAt 1326338668800000"
    by (simp add: timeClip_def)
  have y: "getFullYear lenientPlatform (DateAt 1326338668800000) = Some 44000"
    by (simp add: getFullYear_def lenientPlatform_def yearFromTime_def msPerDay_def dayFromYear_def Let_def)
  have t: "parseDate lenientPlatform (TextCell ''44000'') = Some (DateAt 1326338668800000)"
    unfolding parseDate_digits [OF digits_44000(1,2)] p by (simp add: yearAfter1900_def y c)
  have n: "parseDate lenientPlatform (NumCell 44000) = Some (DateAt 1326338668800000)"
    unfolding parseDate_NumCell_44000 by (rule t)
  have z: "\<bar>localTZA lenientPlatform 1592438400000 True\<bar> \<le> msPerDay"
    by (simp add: lenientPlatform_def msPerDay_def)
  have o: "overdueDays 1647302400000 (DateAt 1326338668800000) = Fin 0"
    by (simp add: overdueDays_def)
  have m: "diasAtrasado (mapRow lenientPlatform 1647302400000
        [(''Data limite para protocolo'', NumCell 44000)]) = Present (Fin 0)"
    by (simp add: mapRow_def mapColumns_single not_index_letter isDigit_def mapColumn_def
        resolve_protocolo n nullable_def newCliente_def fallbackDias_def o)
  have e: "overdueDays 1647302400000 (DateAt 1592438400000) = Fin 635"
    by (simp add: overdueDays_def)
  from t n y parseSerial_44000 [OF z] m e show ?thesis by blast
qed

lemma makeDay_2021_12_05: "makeDay 2022 (- 1) 5 = 18966"
  by (simp add: makeDay_def dayFromYear_def inLeapYear_def daysBeforeMonth_def Let_def)

text \<open>
  Claim C5 says that a text of three parts is rejected when a part is not numeric. The
  tests \<^verbatim>\<open>!isNaN(...)\<close> of the code let an empty part through, since \<^verbatim>\<open>Number("")\<close> is \<open>0\<close>:
  \<^verbatim>\<open>"5//2022"\<close>, with no month, is read as \<^verbatim>\<open>new Date(2022, -1, 5)\<close>, the fifth of
  December 2021, and not rejected.
\<close>

theorem parseDate_blank_part_accepted:
  "Number [] = Fin 0
   \<and> parseDate env (TextCell ''5//2022'') = Some (newDateYMD env (Fin 2022) (Fin (- 1)) (Fin 5))
   \<and> parseDate strictPlatform (TextCell ''5//2022'') = Some (DateAt 1638662400000)"
proof -
  have n0: "Number [] = Fin 0" by (simp add: Number_def trim_Nil)
  have s: "''5//2022'' \<noteq> []" by simp
  have t: "trim ''5//2022'' = ''5//2022''" by (simp add: trim_def isSpace_def)
  have p: "splitOn (\<lambda>c. c = CHR ''/'') ''5//2022'' = [''5'', [], ''2022'']" by simp
  have e: "[''5'', [], ''2022''] ! 0 = ''5''" "[''5'', [], ''2022''] ! 1 = []"
    "[''5'', [], ''2022''] ! 2 = ''2022''" "length [''5'', [], ''2022''] = 3"
    by simp_all
  have n: "Number ''5'' = Fin 5" "Number ''2022'' = Fin 2022"
    by (simp_all add: Number_digits isDigit_def decimalValue_def digitVal_def)
  have g: "parseDate env (TextCell ''5//2022'') = Some (newDateYMD env (Fin 2022) (Fin (- 1)) (Fin 5))" for env
    unfolding parseDate_text [OF s t] p e n n0
    by (simp add: isNaN_def jsMinusOne_def jsGreater_def)
  have "newDateYMD strictPlatform (Fin 2022) (Fin (- 1)) (Fin 5) = DateAt 1638662400000"
    using newDateYMD_int [of strictPlatform 2022 "- 1" 5]
    by (simp add: makeDay_2021_12_05 strictPlatform_def timeClip_def msPerDay_def)
  with n0 g show ?thesis by simp
qed

end
